theory Spec2Isabelle
  imports Main "HOL-Library.Sublist" "HOL-Library.AList"
begin

section \<open>Ticket triage: the two backend adapters, the model pull, the batch loop and the cleanup\<close>

text \<open>
  The development follows \<^verbatim>\<open>triage.py\<close> and \<^verbatim>\<open>clean.py\<close>. Python strings are
  \<^typ>\<open>string\<close>; a raised exception is a value of \<open>exn\<close> on the left of a sum; the
  external services (the Ollama client, the Gemini client, the HTTP pull endpoint) are
  functions on an explicit service state \<open>'s\<close>, so that a service may answer two equal
  requests differently and so that "no call was made" is visible as an unchanged state.
  Calls to \<^verbatim>\<open>logging\<close> and \<^verbatim>\<open>print\<close> never influence a result and are left out.
\<close>

subsection \<open>String operations of Python used by the code\<close>

text \<open>\<^verbatim>\<open>s.startswith(p)\<close>, \<^verbatim>\<open>s.endswith(p)\<close> and \<^verbatim>\<open>sub in s\<close> on strings.\<close>

fun startswith :: "string \<Rightarrow> string \<Rightarrow> bool" where
  "startswith s [] = True"
| "startswith [] (p # ps) = False"
| "startswith (c # cs) (p # ps) = (c = p \<and> startswith cs ps)"

definition endswith :: "string \<Rightarrow> string \<Rightarrow> bool" where
  "endswith s p = startswith (rev s) (rev p)"

fun str_contains :: "string \<Rightarrow> string \<Rightarrow> bool" where
  "str_contains [] sub = (sub = [])"
| "str_contains (c # cs) sub = (startswith (c # cs) sub \<or> str_contains cs sub)"

text \<open>
  \<^verbatim>\<open>s.lower()\<close>, with a character read as its code point below 256: the capital letters
  are \<open>A\<close> to \<open>Z\<close> (65 to 90) and the Latin-1 capitals 192 to 222 without the
  multiplication sign 215; the small letter is 32 further.
\<close>

definition lower_char :: "char \<Rightarrow> char" where
  "lower_char c =
     (let n = (of_char c :: nat)
      in if (65 \<le> n \<and> n \<le> 90) \<or> (192 \<le> n \<and> n \<le> 222 \<and> n \<noteq> 215)
         then char_of (n + 32) else c)"

definition lower :: "string \<Rightarrow> string" where
  "lower s = map lower_char s"

subsection \<open>Exceptions and the external services\<close>

text \<open>
  The exceptions that can leave a function of the program. \<open>ValueError\<close> is raised by
  the program itself with the given message. \<open>RequestException\<close> stands for the class
  of that name of \<^verbatim>\<open>requests\<close> and its subclasses (connection and stream failures),
  \<open>ServiceError\<close> for any other \<^verbatim>\<open>Exception\<close> raised inside a client library, both
  with the text \<^verbatim>\<open>str(e)\<close>. The remaining ones are raised by the interpreter or the
  standard library while an expression of the program is evaluated; their message only
  ever reaches the log.
\<close>

datatype exn =
    ValueError string
  | RequestException string
  | ServiceError string
  | JSONDecodeError string
  | TypeError
  | AttributeError
  | ZeroDivisionError
  | OverflowError
  | FileNotFoundError
  | NotADirectoryError
  | IsADirectoryError
  | KeyError
  | UnicodeDecodeError
  | UnicodeEncodeError

text \<open>
  What a \<^verbatim>\<open>try\<close> body around a client call observes: the call raises an
  \<^verbatim>\<open>Exception\<close> whose \<^verbatim>\<open>str(e)\<close> is the given text, or the value the body
  extracts from the response.
\<close>

datatype 'a reply = Raises string | Returns 'a

text \<open>
  JSON values as \<^verbatim>\<open>json.loads\<close> returns them: \<^verbatim>\<open>None\<close>, \<^verbatim>\<open>bool\<close>, \<^verbatim>\<open>int\<close>,
  \<^verbatim>\<open>str\<close>, \<^verbatim>\<open>list\<close> and \<^verbatim>\<open>dict\<close> (its items, the keys distinct). The pull
  endpoint reports byte counts as JSON integers; numbers with a fraction or an exponent
  (Python floats) are not represented.
\<close>

datatype json =
    JNull
  | JBool bool
  | JInt int
  | JStr string
  | JArr "json list"
  | JObj "(string \<times> json) list"

text \<open>
  One element of \<^verbatim>\<open>response.iter_lines()\<close>, by what the loop body sees of it: an empty
  (falsy) line, a line on which \<^verbatim>\<open>json.loads\<close> raises with the given message, or a line
  that parses to a JSON value. The iterator itself may raise instead of yielding a line.
\<close>

datatype line = Blank | Unparsable string | Parsed json

datatype stream_item = Line line | Stream_raises exn

record response =
  status_code :: int
  iter_lines :: "stream_item list"

text \<open>
  The services. \<open>ollama_list\<close> is \<^verbatim>\<open>ollama.list()['models']\<close> with
  \<^verbatim>\<open>model.get('name')\<close> of each descriptor; \<open>ollama_chat\<close> is the \<^verbatim>\<open>try\<close> body of
  \<^verbatim>\<open>triage_ticket_ollama\<close> (the call \<^verbatim>\<open>ollama.chat(model, messages)\<close> and the
  extraction \<^verbatim>\<open>response['message']['content']\<close>, a string by the type of the client
  library); \<open>gemini_generate_content\<close> is the
  \<^verbatim>\<open>try\<close> body of \<^verbatim>\<open>triage_ticket_gemini\<close> (\<^verbatim>\<open>genai.Client()\<close>,
  \<^verbatim>\<open>generate_content(model, contents)\<close> and \<^verbatim>\<open>response.text\<close>, which may be
  \<^verbatim>\<open>None\<close>); \<open>requests_post\<close> is \<^verbatim>\<open>requests.post(url, data, stream=True)\<close> with
  the payload given by its items.
\<close>

record 's services =
  ollama_list :: "'s \<Rightarrow> (exn + string option list) \<times> 's"
  ollama_chat :: "string \<Rightarrow> (string \<times> string) list \<Rightarrow> 's \<Rightarrow> string reply \<times> 's"
  gemini_generate_content :: "string \<Rightarrow> string \<Rightarrow> 's \<Rightarrow> string option reply \<times> 's"
  requests_post :: "string \<Rightarrow> (string \<times> string) list \<Rightarrow> 's \<Rightarrow> (exn + response) \<times> 's"

type_synonym environ = "string \<rightharpoonup> string"

subsection \<open>Pulling a model: \<^verbatim>\<open>pull_model_with_progress\<close>\<close>

definition and_then :: "exn + 'a \<Rightarrow> ('a \<Rightarrow> exn + 'b) \<Rightarrow> exn + 'b" where
  "and_then r f = (case r of Inl e \<Rightarrow> Inl e | Inr v \<Rightarrow> f v)"

text \<open>
  \<^verbatim>\<open>key in x\<close> for a string \<open>key\<close>: key membership on a dict, element membership on
  a list, substring on a string, \<^verbatim>\<open>TypeError\<close> otherwise.
\<close>

fun py_in :: "string \<Rightarrow> json \<Rightarrow> exn + bool" where
  "py_in k (JObj items) = Inr (k \<in> set (map fst items))"
| "py_in k (JArr xs) = Inr (JStr k \<in> set xs)"
| "py_in k (JStr s) = Inr (str_contains s k)"
| "py_in k JNull = Inl TypeError"
| "py_in k (JBool b) = Inl TypeError"
| "py_in k (JInt n) = Inl TypeError"

text \<open>\<^verbatim>\<open>x[key]\<close> for a string \<open>key\<close>: only a dict can be subscripted by a string.\<close>

fun py_getitem :: "json \<Rightarrow> string \<Rightarrow> exn + json" where
  "py_getitem (JObj items) k = (case map_of items k of None \<Rightarrow> Inl KeyError | Some v \<Rightarrow> Inr v)"
| "py_getitem (JArr xs) k = Inl TypeError"
| "py_getitem (JStr s) k = Inl TypeError"
| "py_getitem JNull k = Inl TypeError"
| "py_getitem (JBool b) k = Inl TypeError"
| "py_getitem (JInt n) k = Inl TypeError"

text \<open>\<^verbatim>\<open>x.lower()\<close>: only a string has the method.\<close>

fun py_lower :: "json \<Rightarrow> exn + string" where
  "py_lower (JStr s) = Inr (lower s)"
| "py_lower (JObj items) = Inl AttributeError"
| "py_lower (JArr xs) = Inl AttributeError"
| "py_lower JNull = Inl AttributeError"
| "py_lower (JBool b) = Inl AttributeError"
| "py_lower (JInt n) = Inl AttributeError"

text \<open>
  \<^verbatim>\<open>(completed / total) * 100\<close>. True division is defined on numbers (\<^verbatim>\<open>bool\<close> is a
  subclass of \<^verbatim>\<open>int\<close>); it raises \<^verbatim>\<open>ZeroDivisionError\<close> on a zero divisor and
  \<^verbatim>\<open>OverflowError\<close> when the correctly rounded quotient is no double, that is from
  \<open>2 ^ 1024 - 2 ^ 970\<close> on. The quotient itself is a float that is only printed, so
  the result records no more than that the expression has a value.
\<close>

fun as_int :: "json \<Rightarrow> int option" where
  "as_int (JInt n) = Some n"
| "as_int (JBool b) = Some (if b then 1 else 0)"
| "as_int (JStr s) = None"
| "as_int JNull = None"
| "as_int (JArr xs) = None"
| "as_int (JObj items) = None"

definition percent_of :: "json \<Rightarrow> json \<Rightarrow> exn + unit" where
  "percent_of completed total' =
     (case (as_int completed, as_int total') of
        (Some c, Some t) \<Rightarrow>
          if t = 0 then Inl ZeroDivisionError
          else if (2 ^ 1024 - 2 ^ 970) * \<bar>t\<bar> \<le> \<bar>c\<bar> then Inl OverflowError
          else Inr ()
      | _ \<Rightarrow> Inl TypeError)"

text \<open>
  The first \<^verbatim>\<open>if\<close> of the loop body (lines 59 to 65): whether the event carries a status
  that contains \<open>success\<close> or \<open>finished\<close>, in which case the function returns
  \<^verbatim>\<open>True\<close> at once.
\<close>

definition terminal_status :: "json \<Rightarrow> exn + bool" where
  "terminal_status json_response =
     and_then (py_in ''status'' json_response) (\<lambda>present.
       if present then
         and_then (py_getitem json_response ''status'') (\<lambda>status.
         and_then (py_lower status) (\<lambda>l.
           Inr (str_contains l ''success'' \<or> str_contains l ''finished'')))
       else Inr False)"

text \<open>The second \<^verbatim>\<open>if\<close> of the loop body (lines 67 to 72): the progress line.\<close>

definition progress :: "json \<Rightarrow> exn + unit" where
  "progress json_response =
     and_then (py_in ''total'' json_response) (\<lambda>has_total.
       if has_total then
         and_then (py_in ''completed'' json_response) (\<lambda>has_completed.
           if has_completed then
             and_then (py_getitem json_response ''completed'') (\<lambda>completed.
             and_then (py_getitem json_response ''total'') (\<lambda>total'.
               percent_of completed total'))
           else Inr ())
       else Inr ())"

text \<open>The loop body on one line: go on with the next line, or return a value.\<close>

datatype 'a flow = Next | Return 'a

definition pull_loop_body :: "line \<Rightarrow> exn + bool flow" where
  "pull_loop_body l =
     (case l of
        Blank \<Rightarrow> Inr Next
      | Unparsable m \<Rightarrow> Inl (JSONDecodeError m)
      | Parsed json_response \<Rightarrow>
          and_then (terminal_status json_response) (\<lambda>done.
            if done then Inr (Return True)
            else and_then (progress json_response) (\<lambda>_. Inr Next)))"

text \<open>The \<^verbatim>\<open>for\<close> loop over the stream and the \<^verbatim>\<open>return True\<close> after it.\<close>

fun pull_loop :: "stream_item list \<Rightarrow> exn + bool" where
  "pull_loop [] = Inr True"
| "pull_loop (Stream_raises e # rest) = Inl e"
| "pull_loop (Line l # rest) =
     (case pull_loop_body l of
        Inl e \<Rightarrow> Inl e
      | Inr (Return b) \<Rightarrow> Inr b
      | Inr Next \<Rightarrow> pull_loop rest)"

text \<open>The handler \<^verbatim>\<open>except RequestException\<close>: any other exception goes on.\<close>

fun except_RequestException :: "exn + bool \<Rightarrow> exn + bool" where
  "except_RequestException (Inl (RequestException m)) = Inr False"
| "except_RequestException r = r"

definition pull_model_with_progress ::
  "('s, 'x) services_scheme \<Rightarrow> string \<Rightarrow> 's \<Rightarrow> (exn + bool) \<times> 's" where
  "pull_model_with_progress svc model_name s =
     (case requests_post svc ''http://localhost:11434/api/pull'' [(''name'', model_name)] s of
        (Inl e, s') \<Rightarrow> (except_RequestException (Inl e), s')
      | (Inr response, s') \<Rightarrow>
          (except_RequestException
             (if status_code response \<noteq> 200 then Inr False
              else pull_loop (iter_lines response)), s'))"

subsection \<open>The availability check: \<^verbatim>\<open>ensure_ollama_model_available\<close>\<close>

text \<open>
  Whatever is raised in the \<^verbatim>\<open>try\<close> body, by the listing or by the pull, is logged and
  raised again. The boolean that the pull returns is dropped.
\<close>

definition ensure_ollama_model_available ::
  "('s, 'x) services_scheme \<Rightarrow> string \<Rightarrow> 's \<Rightarrow> (exn + unit) \<times> 's" where
  "ensure_ollama_model_available svc model_name s =
     (case ollama_list svc s of
        (Inl e, s') \<Rightarrow> (Inl e, s')
      | (Inr local_models, s') \<Rightarrow>
          if \<not> list_ex (\<lambda>model. model = Some model_name) local_models then
            (case pull_model_with_progress svc model_name s' of
               (Inl e, s'') \<Rightarrow> (Inl e, s'')
             | (Inr pulled, s'') \<Rightarrow> (Inr (), s''))
          else (Inr (), s'))"

subsection \<open>The adapters: \<^verbatim>\<open>triage_ticket_ollama\<close> and \<^verbatim>\<open>triage_ticket_gemini\<close>\<close>

text \<open>The two prompts, each written out from the f-string of its own function.\<close>

definition ollama_prompt :: "string \<Rightarrow> string" where
  \<open>ollama_prompt ticket_content =
     ''\<newline>'' @
     ''    You are an expert IT support ticket triaging system. Your task is to analyze the following IT ticket and provide a structured triage report.\<newline>'' @
     ''\<newline>'' @
     ''    The triage report must include the following sections:\<newline>'' @
     ''    - **Urgency**: (e.g., Low, Medium, High, Critical)\<newline>'' @
     ''    - **Category**: (e.g., Hardware, Software, Network, Account, Other)\<newline>'' @
     ''    - **Summary**: A brief, one-sentence summary of the issue.\<newline>'' @
     ''    - **Next Step**: Propose a concrete next action. This should be a numbered list of 1-3 clear, actionable steps.\<newline>'' @
     ''    - **New Status**: Based on the "Next Step", set the status to one of the following: "unclear" (if more information is needed), "pending next step" (if the user needs to do something), or "closed" (if no action is required).\<newline>'' @
     ''\<newline>'' @
     ''    Here is the ticket:\<newline>'' @
     ''    ---\<newline>'' @
     ''    '' @
     ticket_content @
     ''\<newline>'' @
     ''    ---\<newline>'' @
     ''\<newline>'' @
     ''    Please provide the triage report in markdown format.\<newline>'' @
     ''    ''\<close>

definition gemini_prompt :: "string \<Rightarrow> string" where
  \<open>gemini_prompt ticket_content =
     ''\<newline>'' @
     ''    You are an expert IT support ticket triaging system. Your task is to analyze the following IT ticket and provide a structured triage report.\<newline>'' @
     ''\<newline>'' @
     ''    The triage report must include the following sections:\<newline>'' @
     ''    - **Urgency**: (e.g., Low, Medium, High, Critical)\<newline>'' @
     ''    - **Category**: (e.g., Hardware, Software, Network, Account, Other)\<newline>'' @
     ''    - **Summary**: A brief, one-sentence summary of the issue.\<newline>'' @
     ''    - **Next Step**: Propose a concrete next action. This should be a numbered list of 1-3 clear, actionable steps.\<newline>'' @
     ''    - **New Status**: Based on the "Next Step", set the status to one of the following: "unclear" (if more information is needed), "pending next step" (if the user needs to do something), or "closed" (if no action is required).\<newline>'' @
     ''\<newline>'' @
     ''    Here is the ticket:\<newline>'' @
     ''    ---\<newline>'' @
     ''    '' @
     ticket_content @
     ''\<newline>'' @
     ''    ---\<newline>'' @
     ''\<newline>'' @
     ''    Please provide the triage report in markdown format.\<newline>'' @
     ''    ''\<close>

text \<open>\<^verbatim>\<open>not x\<close> for a value that is \<^verbatim>\<open>None\<close> or a string.\<close>

fun falsy :: "string option \<Rightarrow> bool" where
  "falsy None = True"
| "falsy (Some s) = (s = [])"

text \<open>
  \<^verbatim>\<open>triage_ticket_ollama\<close>: the model name is read from the environment and checked
  before anything else; the \<^verbatim>\<open>try\<close> around the chat call turns every exception into
  a returned string.
\<close>

definition triage_ticket_ollama ::
  "('s, 'x) services_scheme \<Rightarrow> environ \<Rightarrow> string \<Rightarrow> 's \<Rightarrow> (exn + string) \<times> 's" where
  "triage_ticket_ollama svc environ ticket_content s =
     (case environ ''OLLAMA_MODEL'' of
        None \<Rightarrow> (Inl (ValueError ''OLLAMA_MODEL environment variable not set.''), s)
      | Some ollama_model \<Rightarrow>
          if falsy (Some ollama_model)
          then (Inl (ValueError ''OLLAMA_MODEL environment variable not set.''), s)
          else
            (case ollama_chat svc ollama_model [(''user'', ollama_prompt ticket_content)] s of
               (Returns content, s') \<Rightarrow> (Inr content, s')
             | (Raises e, s') \<Rightarrow> (Inr (''Error during Ollama triage: '' @ e), s')))"

text \<open>
  \<^verbatim>\<open>triage_ticket_gemini\<close>: the whole body after the prompt is inside the \<^verbatim>\<open>try\<close>;
  \<^verbatim>\<open>response.text or "Error: Empty response from Gemini."\<close> replaces a falsy text.
\<close>

definition triage_ticket_gemini ::
  "('s, 'x) services_scheme \<Rightarrow> string \<Rightarrow> 's \<Rightarrow> (exn + string) \<times> 's" where
  "triage_ticket_gemini svc ticket_content s =
     (case gemini_generate_content svc ''gemini-2.5-flash'' (gemini_prompt ticket_content) s of
        (Returns response_text, s') \<Rightarrow>
          (Inr (case response_text of
                  None \<Rightarrow> ''Error: Empty response from Gemini.''
                | Some t \<Rightarrow> if falsy (Some t) then ''Error: Empty response from Gemini.'' else t),
           s')
      | (Raises e, s') \<Rightarrow> (Inr (''Error during Gemini triage: '' @ e), s'))"

subsection \<open>The file system\<close>

text \<open>
  A directory is the list of its entries in the order \<^verbatim>\<open>os.listdir\<close> reports them,
  names distinct; an entry is a regular file with its text (what \<^verbatim>\<open>f.read()\<close> returns
  and \<^verbatim>\<open>f.write\<close> receives), a regular file whose bytes are no UTF-8 and so have no
  text, or a directory. The program works in the current directory \<open>cwd\<close> and only
  ever names paths \<open>d/name\<close> one level below a directory \<open>d\<close> of it.
\<close>

datatype node = File string | Not_UTF8 | Dir "(string \<times> node) list"

type_synonym directory = "(string \<times> node) list"

definition os_path_exists :: "directory \<Rightarrow> string \<Rightarrow> bool" where
  "os_path_exists cwd d = (map_of cwd d \<noteq> None)"

definition os_makedirs :: "directory \<Rightarrow> string \<Rightarrow> directory" where
  "os_makedirs cwd d = AList.update d (Dir []) cwd"

definition os_listdir :: "directory \<Rightarrow> string \<Rightarrow> exn + string list" where
  "os_listdir cwd d =
     (case map_of cwd d of
        None \<Rightarrow> Inl FileNotFoundError
      | Some (File c) \<Rightarrow> Inl NotADirectoryError
      | Some Not_UTF8 \<Rightarrow> Inl NotADirectoryError
      | Some (Dir entries) \<Rightarrow> Inr (map fst entries))"

text \<open>
  \<^verbatim>\<open>open(os.path.join(d, name), 'r', encoding='utf-8').read()\<close>: the text of a
  regular file, \<^verbatim>\<open>UnicodeDecodeError\<close> when its bytes are no UTF-8.
\<close>

definition read_file :: "directory \<Rightarrow> string \<Rightarrow> string \<Rightarrow> exn + string" where
  "read_file cwd d name =
     (case map_of cwd d of
        None \<Rightarrow> Inl FileNotFoundError
      | Some (File c) \<Rightarrow> Inl NotADirectoryError
      | Some Not_UTF8 \<Rightarrow> Inl NotADirectoryError
      | Some (Dir entries) \<Rightarrow>
          (case map_of entries name of
             None \<Rightarrow> Inl FileNotFoundError
           | Some (Dir sub) \<Rightarrow> Inl IsADirectoryError
           | Some Not_UTF8 \<Rightarrow> Inl UnicodeDecodeError
           | Some (File c) \<Rightarrow> Inr c))"

text \<open>
  \<^verbatim>\<open>open(os.path.join(d, name), 'w', encoding='utf-8')\<close> followed by
  \<^verbatim>\<open>f.write(data)\<close>. Opening creates the file, or empties an existing regular file;
  writing encodes the text. Python text may hold lone surrogates (a JSON escape for half
  of a surrogate pair decodes to one), and the codec refuses those with
  \<^verbatim>\<open>UnicodeEncodeError\<close>, which leaves the file behind empty. A \<^typ>\<open>string\<close> does
  not show surrogates, so which texts the codec accepts is the parameter \<open>encodable\<close>
  of everything that writes a file.
\<close>

definition write_file ::
  "(string \<Rightarrow> bool) \<Rightarrow> directory \<Rightarrow> string \<Rightarrow> string \<Rightarrow> string \<Rightarrow> (exn + unit) \<times> directory" where
  "write_file encodable cwd d name data =
     (case map_of cwd d of
        None \<Rightarrow> (Inl FileNotFoundError, cwd)
      | Some (File c) \<Rightarrow> (Inl NotADirectoryError, cwd)
      | Some Not_UTF8 \<Rightarrow> (Inl NotADirectoryError, cwd)
      | Some (Dir entries) \<Rightarrow>
          (case map_of entries name of
             Some (Dir sub) \<Rightarrow> (Inl IsADirectoryError, cwd)
           | _ \<Rightarrow>
               if encodable data
               then (Inr (), AList.update d (Dir (AList.update name (File data) entries)) cwd)
               else (Inl UnicodeEncodeError,
                     AList.update d (Dir (AList.update name (File []) entries)) cwd)))"

text \<open>\<^verbatim>\<open>os.remove(os.path.join(d, name))\<close>: removes a regular file only.\<close>

definition os_remove :: "directory \<Rightarrow> string \<Rightarrow> string \<Rightarrow> exn + directory" where
  "os_remove cwd d name =
     (case map_of cwd d of
        None \<Rightarrow> Inl FileNotFoundError
      | Some (File c) \<Rightarrow> Inl NotADirectoryError
      | Some Not_UTF8 \<Rightarrow> Inl NotADirectoryError
      | Some (Dir entries) \<Rightarrow>
          (case map_of entries name of
             None \<Rightarrow> Inl FileNotFoundError
           | Some (Dir sub) \<Rightarrow> Inl IsADirectoryError
           | Some Not_UTF8 \<Rightarrow> Inr (AList.update d (Dir (AList.delete name entries)) cwd)
           | Some (File c) \<Rightarrow> Inr (AList.update d (Dir (AList.delete name entries)) cwd)))"

text \<open>
  \<^verbatim>\<open>glob.glob(os.path.join(d, '*'))\<close>, each path given by its last component: the
  entries of \<open>d\<close> whose name does not begin with a dot (the pattern \<open>*\<close> does not
  match those), and nothing when \<open>d\<close> is no directory.
\<close>

definition glob_star :: "directory \<Rightarrow> string \<Rightarrow> string list" where
  "glob_star cwd d =
     (case map_of cwd d of
        Some (Dir entries) \<Rightarrow> filter (\<lambda>name. \<not> startswith name ''.'') (map fst entries)
      | _ \<Rightarrow> [])"

subsection \<open>The batch run: \<^verbatim>\<open>main\<close>\<close>

datatype backend = Ollama | Gemini

definition original_dir :: string where
  "original_dir = ''tickets-original''"

definition triaged_dir :: string where
  "triaged_dir = ''tickets-triaged''"

text \<open>The text written for a ticket (lines 256 and 265).\<close>

definition updated_content :: "string \<Rightarrow> string \<Rightarrow> string" where
  \<open>updated_content original_content triage_report =
     (let ticket_with_status =
            original_content @ ''\<newline>\<newline>---\<newline>\<newline>**Status:** new''
      in ticket_with_status @ ''\<newline>\<newline>---\<newline>\<newline>## Triage\<newline>\<newline>'' @ triage_report)\<close>

text \<open>The adapter that \<^verbatim>\<open>--model\<close> selects (lines 259 to 262).\<close>

definition selected_triage ::
  "('s, 'x) services_scheme \<Rightarrow> environ \<Rightarrow> backend \<Rightarrow> string \<Rightarrow> 's \<Rightarrow> (exn + string) \<times> 's" where
  "selected_triage svc environ args_model original_content s =
     (if args_model = Ollama
      then triage_ticket_ollama svc environ original_content s
      else triage_ticket_gemini svc original_content s)"

text \<open>
  The body of the loop for a name that ends in \<open>.md\<close>: read the ticket, triage what
  was read, write the combined text under the same name. An exception ends the body
  with the files as they are then (after a refused text, with the emptied output file);
  the services keep the state the call left them in.
\<close>

definition triage_file ::
  "(string \<Rightarrow> bool) \<Rightarrow> ('s, 'x) services_scheme \<Rightarrow> environ \<Rightarrow> backend \<Rightarrow> string
     \<Rightarrow> directory \<times> 's \<Rightarrow> (exn + unit) \<times> (directory \<times> 's)" where
  "triage_file encodable svc environ args_model filename w =
     (case w of (cwd, s) \<Rightarrow>
        (case read_file cwd original_dir filename of
           Inl e \<Rightarrow> (Inl e, (cwd, s))
         | Inr original_content \<Rightarrow>
             (case selected_triage svc environ args_model original_content s of
                (Inl e, s') \<Rightarrow> (Inl e, (cwd, s'))
              | (Inr triage_report, s') \<Rightarrow>
                  (case write_file encodable cwd triaged_dir filename
                          (updated_content original_content triage_report) of
                     (written, cwd') \<Rightarrow> (written, (cwd', s'))))))"

text \<open>
  The \<^verbatim>\<open>for\<close> loop of \<^verbatim>\<open>main\<close> over the names that \<^verbatim>\<open>os.listdir\<close> returned.
  An exception ends the loop; what was written before it stays written.
\<close>

fun batch_loop ::
  "(string \<Rightarrow> bool) \<Rightarrow> ('s, 'x) services_scheme \<Rightarrow> environ \<Rightarrow> backend \<Rightarrow> string list
     \<Rightarrow> directory \<times> 's \<Rightarrow> (exn + unit) \<times> (directory \<times> 's)" where
  "batch_loop encodable svc environ args_model [] w = (Inr (), w)"
| "batch_loop encodable svc environ args_model (filename # rest) w =
     (if endswith filename ''.md'' then
        (case triage_file encodable svc environ args_model filename w of
           (Inl e, w') \<Rightarrow> (Inl e, w')
         | (Inr u, w') \<Rightarrow> batch_loop encodable svc environ args_model rest w')
      else batch_loop encodable svc environ args_model rest w)"

text \<open>
  \<^verbatim>\<open>main\<close> for a given value of \<^verbatim>\<open>--model\<close>: the configuration check and the
  availability check for Ollama, the creation of the output directory, the listing of
  the input directory, the loop.
\<close>

definition main ::
  "(string \<Rightarrow> bool) \<Rightarrow> ('s, 'x) services_scheme \<Rightarrow> environ \<Rightarrow> backend \<Rightarrow> directory \<times> 's
     \<Rightarrow> (exn + unit) \<times> (directory \<times> 's)" where
  "main encodable svc environ args_model w =
     (case w of (cwd, s) \<Rightarrow>
        (case (if args_model = Ollama then
                 (case environ ''OLLAMA_MODEL'' of
                    None \<Rightarrow>
                      (Inl (ValueError
                         ''OLLAMA_MODEL environment variable not set for the ollama model.''), s)
                  | Some ollama_model \<Rightarrow>
                      if falsy (Some ollama_model)
                      then (Inl (ValueError
                         ''OLLAMA_MODEL environment variable not set for the ollama model.''), s)
                      else ensure_ollama_model_available svc ollama_model s)
               else (Inr (), s)) of
           (Inl e, s1) \<Rightarrow> (Inl e, (cwd, s1))
         | (Inr u, s1) \<Rightarrow>
             (let cwd1 = (if \<not> os_path_exists cwd triaged_dir
                          then os_makedirs cwd triaged_dir else cwd)
              in case os_listdir cwd1 original_dir of
                   Inl e \<Rightarrow> (Inl e, (cwd1, s1))
                 | Inr names \<Rightarrow> batch_loop encodable svc environ args_model names (cwd1, s1))))"

subsection \<open>The cleanup: \<^verbatim>\<open>clean_triaged_directory\<close>\<close>

fun remove_each :: "string \<Rightarrow> string list \<Rightarrow> directory \<Rightarrow> (exn + unit) \<times> directory" where
  "remove_each d [] cwd = (Inr (), cwd)"
| "remove_each d (f # files) cwd =
     (case os_remove cwd d f of
        Inl e \<Rightarrow> (Inl e, cwd)
      | Inr cwd' \<Rightarrow> remove_each d files cwd')"

definition clean_triaged_directory :: "directory \<Rightarrow> (exn + unit) \<times> directory" where
  "clean_triaged_directory cwd =
     (let files = glob_star cwd ''tickets-triaged'' in remove_each ''tickets-triaged'' files cwd)"

subsection \<open>Concrete services and environments\<close>

text \<open>
  An environment as the tests set it up, and two services whose state counts the calls
  made: one on which every call fails, one that answers every call with nothing.
\<close>

definition test_environ :: environ where
  "test_environ = [''OLLAMA_MODEL'' \<mapsto> ''test-ollama-model'']"

definition down_services :: "nat services" where
  "down_services =
     \<lparr>ollama_list = (\<lambda>s. (Inl (ServiceError ''Ollama API is down''), Suc s)),
      ollama_chat = (\<lambda>model messages s. (Raises ''Ollama API is down'', Suc s)),
      gemini_generate_content = (\<lambda>model contents s. (Raises ''Gemini API is down'', Suc s)),
      requests_post = (\<lambda>url payload s. (Inl (RequestException ''Connection refused''), Suc s))\<rparr>"

definition silent_services :: "nat services" where
  "silent_services =
     \<lparr>ollama_list = (\<lambda>s. (Inr [], Suc s)),
      ollama_chat = (\<lambda>model messages s. (Returns [], Suc s)),
      gemini_generate_content = (\<lambda>model contents s. (Returns None, Suc s)),
      requests_post = (\<lambda>url payload s. (Inr \<lparr>status_code = 404, iter_lines = []\<rparr>, Suc s))\<rparr>"

text \<open>Services for the pull: a stream that ends without a success event, a stream with a
  line that is no JSON, an event whose total is zero, a connection that breaks.\<close>

definition progress_services :: "nat services" where
  "progress_services =
     \<lparr>ollama_list = (\<lambda>s. (Inr [Some ''llama3:8b'', None], Suc s)),
      ollama_chat = (\<lambda>model messages s. (Returns ''Urgency: High'', Suc s)),
      gemini_generate_content = (\<lambda>model contents s. (Returns (Some ''Urgency: High''), Suc s)),
      requests_post = (\<lambda>url payload s.
        (Inr \<lparr>status_code = 200,
              iter_lines =
                [Line (Parsed (JObj [(''status'', JStr ''pulling manifest'')])),
                 Line Blank,
                 Line (Parsed (JObj [(''status'', JStr ''downloading''),
                                     (''total'', JInt 100), (''completed'', JInt 50)]))]\<rparr>,
         Suc s))\<rparr>"

definition garbled_services :: "nat services" where
  "garbled_services =
     \<lparr>ollama_list = (\<lambda>s. (Inr [Some ''llama3:8b'', None], Suc s)),
      ollama_chat = (\<lambda>model messages s. (Returns ''Urgency: High'', Suc s)),
      gemini_generate_content = (\<lambda>model contents s. (Returns (Some ''Urgency: High''), Suc s)),
      requests_post = (\<lambda>url payload s.
        (Inr \<lparr>status_code = 200,
              iter_lines =
                [Line (Parsed (JObj [(''status'', JStr ''pulling manifest'')])),
                 Line (Unparsable ''Expecting value: line 1 column 1 (char 0)'')]\<rparr>,
         Suc s))\<rparr>"

definition zero_total_services :: "nat services" where
  "zero_total_services =
     \<lparr>ollama_list = (\<lambda>s. (Inr [], Suc s)),
      ollama_chat = (\<lambda>model messages s. (Returns ''Urgency: High'', Suc s)),
      gemini_generate_content = (\<lambda>model contents s. (Returns (Some ''Urgency: High''), Suc s)),
      requests_post = (\<lambda>url payload s.
        (Inr \<lparr>status_code = 200,
              iter_lines =
                [Line (Parsed (JObj [(''status'', JStr ''pulling manifest''),
                                     (''total'', JInt 0), (''completed'', JInt 0)]))]\<rparr>,
         Suc s))\<rparr>"

definition broken_stream_services :: "nat services" where
  "broken_stream_services =
     \<lparr>ollama_list = (\<lambda>s. (Inr [], Suc s)),
      ollama_chat = (\<lambda>model messages s. (Returns ''Urgency: High'', Suc s)),
      gemini_generate_content = (\<lambda>model contents s. (Returns (Some ''Urgency: High''), Suc s)),
      requests_post = (\<lambda>url payload s.
        (Inr \<lparr>status_code = 200,
              iter_lines =
                [Line (Parsed (JObj [(''status'', JStr ''pulling manifest'')])),
                 Stream_raises (RequestException ''Connection broken'')]\<rparr>,
         Suc s))\<rparr>"

text \<open>A working directory whose output directory holds a file with a dot name.\<close>

definition hidden_cwd :: directory where
  "hidden_cwd =
     [(''tickets-original'', Dir [(''.draft.md'', File ''My printer is on fire.'')]),
      (''tickets-triaged'',
         Dir [(''.draft.md'', File ''My printer is on fire. (triaged)''),
              (''a.md'', File ''No network. (triaged)'')])]"

text \<open>An input directory with two tickets and one other file, and an output directory that
  already holds a file; a service that is down at the first call and answers afterwards.\<close>

definition inbox_tickets :: directory where
  "inbox_tickets =
     [(''a.md'', File ''My printer is on fire.''),
      (''notes.txt'', File ''not a ticket''),
      (''b.md'', File ''No network.'')]"

definition stale_outputs :: directory where
  "stale_outputs = [(''b.md'', File ''stale'')]"

definition inbox_cwd :: directory where
  "inbox_cwd =
     [(''tickets-original'', Dir inbox_tickets), (''tickets-triaged'', Dir stale_outputs)]"

definition recovering_services :: "nat services" where
  "recovering_services =
     \<lparr>ollama_list = (\<lambda>s. (Inr [Some ''test-ollama-model''], Suc s)),
      ollama_chat = (\<lambda>model messages s.
        (if s = 0 then Raises ''Ollama API is down'' else Returns ''Urgency: High'', Suc s)),
      gemini_generate_content = (\<lambda>model contents s.
        (if s = 0 then Raises ''Gemini API is down'' else Returns (Some ''Urgency: High''), Suc s)),
      requests_post = (\<lambda>url payload s. (Inr \<lparr>status_code = 200, iter_lines = []\<rparr>, Suc s))\<rparr>"

definition single_cwd :: directory where
  "single_cwd =
     [(''tickets-original'', Dir [(''a.md'', File ''My printer is on fire.'')]),
      (''tickets-triaged'', Dir [])]"


text \<open>For the concrete runs, a codec that refuses exactly the texts holding the control
  character 26, which stands there for a lone surrogate, and a service whose reports hold
  one.\<close>

definition strict_codec :: "string \<Rightarrow> bool" where
  "strict_codec data = (CHR 0x1A \<notin> set data)"

definition surrogate_services :: "nat services" where
  "surrogate_services =
     \<lparr>ollama_list = (\<lambda>s. (Inr [Some ''test-ollama-model''], Suc s)),
      ollama_chat = (\<lambda>model messages s. (Returns (''Urgency: High '' @ [CHR 0x1A]), Suc s)),
      gemini_generate_content = (\<lambda>model contents s.
        (Returns (Some (''Urgency: High '' @ [CHR 0x1A])), Suc s)),
      requests_post = (\<lambda>url payload s. (Inr \<lparr>status_code = 200, iter_lines = []\<rparr>, Suc s))\<rparr>"

text \<open>A service whose report depends on the request: \<open>Urgency: High\<close> for the prompt built
  from the ticket \<open>No network.\<close> and sent to the configured model, \<open>Urgency: Low\<close> for
  anything else.\<close>

definition attentive_services :: "nat services" where
  "attentive_services =
     \<lparr>ollama_list = (\<lambda>s. (Inr [Some ''test-ollama-model''], Suc s)),
      ollama_chat = (\<lambda>model messages s.
        (Returns (if model = ''test-ollama-model''
                     \<and> messages = [(''user'', ollama_prompt ''No network.'')]
                  then ''Urgency: High'' else ''Urgency: Low''), Suc s)),
      gemini_generate_content = (\<lambda>model contents s.
        (Returns (Some (if model = ''gemini-2.5-flash'' \<and> contents = gemini_prompt ''No network.''
                        then ''Urgency: High'' else ''Urgency: Low'')), Suc s)),
      requests_post = (\<lambda>url payload s. (Inr \<lparr>status_code = 200, iter_lines = []\<rparr>, Suc s))\<rparr>"

text \<open>Working directories in which the loop cannot get through: a directory named like a
  ticket, a ticket that is no UTF-8, a directory in the place of an output file, and a
  regular file in the place of the output directory; and one with two tickets and an
  empty output directory.\<close>

definition archive_cwd :: directory where
  "archive_cwd =
     [(''tickets-original'',
         Dir [(''archive.md'', Dir []), (''a.md'', File ''My printer is on fire.'')]),
      (''tickets-triaged'', Dir [])]"

definition scan_cwd :: directory where
  "scan_cwd =
     [(''tickets-original'',
         Dir [(''scan.md'', Not_UTF8), (''a.md'', File ''My printer is on fire.'')]),
      (''tickets-triaged'', Dir [])]"

definition blocked_cwd :: directory where
  "blocked_cwd =
     [(''tickets-original'',
         Dir [(''a.md'', File ''My printer is on fire.''), (''b.md'', File ''No network.'')]),
      (''tickets-triaged'', Dir [(''a.md'', Dir [])])]"

definition misplaced_cwd :: directory where
  "misplaced_cwd =
     [(''tickets-original'', Dir [(''a.md'', File ''My printer is on fire.'')]),
      (''tickets-triaged'', File [])]"

definition pair_cwd :: directory where
  "pair_cwd =
     [(''tickets-original'',
         Dir [(''a.md'', File ''My printer is on fire.''), (''b.md'', File ''No network.'')]),
      (''tickets-triaged'', Dir [])]"

section \<open>The string operations\<close>

text \<open>The three tests are the prefix, suffix and contiguous-sublist relations of the library.\<close>

lemma startswith_prefix: "startswith s p \<longleftrightarrow> prefix p s"
  by (induction s p rule: startswith.induct) auto

lemma endswith_suffix: "endswith s p \<longleftrightarrow> suffix p s"
  by (simp add: endswith_def startswith_prefix suffix_to_prefix)

lemma str_contains_sublist: "str_contains s sub \<longleftrightarrow> sublist sub s"
  by (induction s) (auto simp: startswith_prefix sublist_Cons_right)

lemma lower_examples:
  "lower ''Success'' = ''success''" "lower ''FINISHED'' = ''finished''"
  by code_simp+

section \<open>Properties of the adapters\<close>

text \<open>
  C4. For every ticket text \<open>T\<close> the prompt that \<^verbatim>\<open>triage_ticket_ollama\<close> renders and
  the prompt that \<^verbatim>\<open>triage_ticket_gemini\<close> renders are the same string, character for
  character, and both consist of a fixed text, the marker \<open>---\<close>, a line break and the
  indentation, \<open>T\<close> itself unchanged, a line break, the indentation and the marker
  \<open>---\<close> again, and a fixed rest.
\<close>

theorem prompts_identical:
  \<open>ollama_prompt T = gemini_prompt T \<and>
   (\<exists>pre post. \<forall>T'.
      ollama_prompt T' = pre @ ''---\<newline>    '' @ T' @ ''\<newline>    ---'' @ post \<and>
      gemini_prompt T' = pre @ ''---\<newline>    '' @ T' @ ''\<newline>    ---'' @ post)\<close>
proof
  show \<open>ollama_prompt T = gemini_prompt T\<close>
    by (simp add: ollama_prompt_def gemini_prompt_def)
  show \<open>\<exists>pre post. \<forall>T'.
      ollama_prompt T' = pre @ ''---\<newline>    '' @ T' @ ''\<newline>    ---'' @ post \<and>
      gemini_prompt T' = pre @ ''---\<newline>    '' @ T' @ ''\<newline>    ---'' @ post\<close>
    apply (rule exI [of _ \<open>''\<newline>    You are an expert IT support ticket triaging system. Your task is to analyze the following IT ticket and provide a structured triage report.\<newline>\<newline>    The triage report must include the following sections:\<newline>    - **Urgency**: (e.g., Low, Medium, High, Critical)\<newline>    - **Category**: (e.g., Hardware, Software, Network, Account, Other)\<newline>    - **Summary**: A brief, one-sentence summary of the issue.\<newline>    - **Next Step**: Propose a concrete next action. This should be a numbered list of 1-3 clear, actionable steps.\<newline>    - **New Status**: Based on the "Next Step", set the status to one of the following: "unclear" (if more information is needed), "pending next step" (if the user needs to do something), or "closed" (if no action is required).\<newline>\<newline>    Here is the ticket:\<newline>    ''\<close>])
    apply (rule exI [of _ \<open>''\<newline>\<newline>    Please provide the triage report in markdown format.\<newline>    ''\<close>])
    apply (simp add: ollama_prompt_def gemini_prompt_def)
    done
qed

text \<open>
  C2. Whenever the backend call raises an exception whose text is \<open>M\<close>, the adapter
  returns normally, and what it returns is \<open>Error during Ollama triage: \<close> followed by
  \<open>M\<close> for the local adapter (the model name being configured and not empty) and
  \<open>Error during Gemini triage: \<close> followed by \<open>M\<close> for the remote one. The exceptions
  meant are those of class \<^verbatim>\<open>Exception\<close>, which is what the handlers name.
\<close>

theorem adapters_contain_backend_exceptions:
  "(environ ''OLLAMA_MODEL'' = Some m \<and> m \<noteq> [] \<and>
      ollama_chat svc m [(''user'', ollama_prompt T)] s = (Raises M, s')
      \<longrightarrow> triage_ticket_ollama svc environ T s = (Inr (''Error during Ollama triage: '' @ M), s'))
   \<and> (gemini_generate_content svc ''gemini-2.5-flash'' (gemini_prompt T) s = (Raises M', s'')
      \<longrightarrow> triage_ticket_gemini svc T s = (Inr (''Error during Gemini triage: '' @ M'), s''))"
  by (simp add: triage_ticket_ollama_def triage_ticket_gemini_def)

theorem adapters_contain_backend_exceptions_witness:
  "triage_ticket_ollama down_services test_environ ''My printer is on fire.'' 0
     = (Inr ''Error during Ollama triage: Ollama API is down'', 1)
   \<and> triage_ticket_gemini down_services ''My printer is on fire.'' 0
     = (Inr ''Error during Gemini triage: Gemini API is down'', 1)"
  using adapters_contain_backend_exceptions
    [of test_environ "''test-ollama-model''" down_services "''My printer is on fire.''" 0
        "''Ollama API is down''" 1 "''Gemini API is down''" 1]
  by (simp add: test_environ_def down_services_def)

text \<open>
  C3. If \<^verbatim>\<open>OLLAMA_MODEL\<close> is unset or empty, \<^verbatim>\<open>triage_ticket_ollama\<close> raises the
  \<^verbatim>\<open>ValueError\<close> that names the variable, for every ticket, and the state of the
  services is the one it started from: no call went out. In the witness the state
  counts the calls, and it stays at zero.
\<close>

theorem ollama_requires_model:
  "falsy (environ ''OLLAMA_MODEL'') \<Longrightarrow>
     triage_ticket_ollama svc environ T s
       = (Inl (ValueError ''OLLAMA_MODEL environment variable not set.''), s)"
  by (cases "environ ''OLLAMA_MODEL''") (simp_all add: triage_ticket_ollama_def)

theorem ollama_requires_model_witness:
  "triage_ticket_ollama down_services Map.empty ''My printer is on fire.'' 0
     = (Inl (ValueError ''OLLAMA_MODEL environment variable not set.''), 0)
   \<and> triage_ticket_ollama silent_services [''OLLAMA_MODEL'' \<mapsto> ''''] ''My printer is on fire.'' 0
     = (Inl (ValueError ''OLLAMA_MODEL environment variable not set.''), 0)"
  using ollama_requires_model [of Map.empty down_services "''My printer is on fire.''" 0]
    ollama_requires_model
      [of "[''OLLAMA_MODEL'' \<mapsto> '''']" silent_services "''My printer is on fire.''" 0]
  by simp



section \<open>Properties of the model pull and the availability check\<close>

lemmas pull_eval = pull_model_with_progress_def pull_loop_body_def terminal_status_def
  progress_def percent_of_def and_then_def lower_def lower_char_def

lemma pull_loop_skips:
  "\<forall>item\<in>set good. \<exists>l. item = Line l \<and> pull_loop_body l = Inr Next
     \<Longrightarrow> pull_loop (good @ rest) = pull_loop rest"
  by (induction good) auto

text \<open>
  C10. If the pull endpoint answers with status 200 and the loop gets through the whole
  stream, every line being empty or an event that is processed without an exception
  and whose status, if it has one, contains neither \<open>success\<close> nor \<open>finished\<close> in any
  letter case, then \<^verbatim>\<open>pull_model_with_progress\<close> returns \<^verbatim>\<open>True\<close>: the end of the
  stream counts as a successful pull.
\<close>

theorem pull_stream_exhausted:
  assumes "requests_post svc ''http://localhost:11434/api/pull'' [(''name'', model_name)] s
             = (Inr resp, s')"
    and "status_code resp = 200"
    and "\<forall>item\<in>set (iter_lines resp). \<exists>l. item = Line l \<and>
           (l = Blank \<or> (\<exists>j. l = Parsed j \<and> terminal_status j = Inr False \<and> progress j = Inr ()))"
  shows "pull_model_with_progress svc model_name s = (Inr True, s')"
proof -
  have "\<forall>item\<in>set (iter_lines resp). \<exists>l. item = Line l \<and> pull_loop_body l = Inr Next"
    using assms(3) by (fastforce simp: pull_loop_body_def and_then_def)
  then have "pull_loop (iter_lines resp @ []) = pull_loop []"
    by (rule pull_loop_skips)
  then show ?thesis
    using assms(1,2) by (simp add: pull_model_with_progress_def)
qed

theorem pull_stream_exhausted_witness:
  "pull_model_with_progress progress_services ''gemma3:12b'' 0 = (Inr True, 1)"
  using pull_stream_exhausted [of progress_services "''gemma3:12b''" 0
     "\<lparr>status_code = 200,
              iter_lines =
                [Line (Parsed (JObj [(''status'', JStr ''pulling manifest'')])),
                 Line Blank,
                 Line (Parsed (JObj [(''status'', JStr ''downloading''),
                                     (''total'', JInt 100), (''completed'', JInt 50)]))]\<rparr>" 1]
  by (simp add: pull_eval progress_services_def)


text \<open>
  C6. Not every failure of the pull step becomes \<^verbatim>\<open>False\<close>. The handler of
  \<^verbatim>\<open>pull_model_with_progress\<close> names \<^verbatim>\<open>RequestException\<close> only, so a line that
  \<^verbatim>\<open>json.loads\<close> rejects, or an event with a total of zero, raises out of the pull,
  and the availability check raises it again.
\<close>

theorem pull_failure_reporting_counterexample:
  "pull_model_with_progress garbled_services ''gemma3:12b'' 0
     = (Inl (JSONDecodeError ''Expecting value: line 1 column 1 (char 0)''), 1)
   \<and> pull_model_with_progress zero_total_services ''gemma3:12b'' 0 = (Inl ZeroDivisionError, 1)
   \<and> ensure_ollama_model_available zero_total_services ''gemma3:12b'' 0
     = (Inl ZeroDivisionError, 2)"
  by (simp add: pull_eval ensure_ollama_model_available_def garbled_services_def
      zero_total_services_def)

text \<open>
  C6 as amended. A \<^verbatim>\<open>RequestException\<close> raised by the POST request, a status other than
  200, and a \<^verbatim>\<open>RequestException\<close> raised by the stream after lines that were processed
  make \<^verbatim>\<open>pull_model_with_progress\<close> return \<^verbatim>\<open>False\<close>, and no exception. When the
  model is not listed and the pull returns a boolean, \<^verbatim>\<open>False\<close> included, the
  availability check returns normally. A failure of the listing is raised again.
\<close>

theorem pull_failure_reporting:
  "(requests_post svc ''http://localhost:11434/api/pull'' [(''name'', n)] s
      = (Inl (RequestException m), s1)
    \<longrightarrow> pull_model_with_progress svc n s = (Inr False, s1))
   \<and> (requests_post svc ''http://localhost:11434/api/pull'' [(''name'', n)] s = (Inr resp, s1)
      \<and> status_code resp \<noteq> 200
    \<longrightarrow> pull_model_with_progress svc n s = (Inr False, s1))
   \<and> (requests_post svc ''http://localhost:11434/api/pull'' [(''name'', n)] s = (Inr resp, s1)
      \<and> status_code resp = 200
      \<and> iter_lines resp = good @ Stream_raises (RequestException m) # rest
      \<and> (\<forall>item\<in>set good. \<exists>l. item = Line l \<and> pull_loop_body l = Inr Next)
    \<longrightarrow> pull_model_with_progress svc n s = (Inr False, s1))
   \<and> (ollama_list svc s0 = (Inr local_models, s)
      \<and> \<not> list_ex (\<lambda>model. model = Some n) local_models
      \<and> pull_model_with_progress svc n s = (Inr pulled, s1)
    \<longrightarrow> ensure_ollama_model_available svc n s0 = (Inr (), s1))
   \<and> (ollama_list svc s0 = (Inl e, s) \<longrightarrow> ensure_ollama_model_available svc n s0 = (Inl e, s))"
proof (intro conjI impI)
  assume "requests_post svc ''http://localhost:11434/api/pull'' [(''name'', n)] s
      = (Inl (RequestException m), s1)"
  then show "pull_model_with_progress svc n s = (Inr False, s1)"
    by (simp add: pull_model_with_progress_def)
next
  assume "requests_post svc ''http://localhost:11434/api/pull'' [(''name'', n)] s = (Inr resp, s1)
      \<and> status_code resp \<noteq> 200"
  then show "pull_model_with_progress svc n s = (Inr False, s1)"
    by (simp add: pull_model_with_progress_def)
next
  assume a: "requests_post svc ''http://localhost:11434/api/pull'' [(''name'', n)] s = (Inr resp, s1)
      \<and> status_code resp = 200
      \<and> iter_lines resp = good @ Stream_raises (RequestException m) # rest
      \<and> (\<forall>item\<in>set good. \<exists>l. item = Line l \<and> pull_loop_body l = Inr Next)"
  then have "pull_loop (iter_lines resp) = Inl (RequestException m)"
    by (simp add: pull_loop_skips)
  with a show "pull_model_with_progress svc n s = (Inr False, s1)"
    by (simp add: pull_model_with_progress_def)
next
  assume "ollama_list svc s0 = (Inr local_models, s)
      \<and> \<not> list_ex (\<lambda>model. model = Some n) local_models
      \<and> pull_model_with_progress svc n s = (Inr pulled, s1)"
  then show "ensure_ollama_model_available svc n s0 = (Inr (), s1)"
    by (simp add: ensure_ollama_model_available_def)
next
  assume "ollama_list svc s0 = (Inl e, s)"
  then show "ensure_ollama_model_available svc n s0 = (Inl e, s)"
    by (simp add: ensure_ollama_model_available_def)
qed

theorem pull_failure_reporting_witness:
  "pull_model_with_progress down_services ''gemma3:12b'' 0 = (Inr False, 1)
   \<and> pull_model_with_progress silent_services ''gemma3:12b'' 0 = (Inr False, 1)
   \<and> pull_model_with_progress broken_stream_services ''gemma3:12b'' 0 = (Inr False, 1)
   \<and> ensure_ollama_model_available silent_services ''gemma3:12b'' 0 = (Inr (), 2)
   \<and> ensure_ollama_model_available down_services ''gemma3:12b'' 0
       = (Inl (ServiceError ''Ollama API is down''), 1)"
  using
    pull_failure_reporting [of down_services "''gemma3:12b''" 0 "''Connection refused''" 1
      "\<lparr>status_code = 200, iter_lines = []\<rparr>" "[]" "[]" 0 "[]" False ZeroDivisionError]
    pull_failure_reporting [of silent_services "''gemma3:12b''" 0 "''''" 1
      "\<lparr>status_code = 404, iter_lines = []\<rparr>" "[]" "[]" 0 "[]" False ZeroDivisionError]
    pull_failure_reporting [of broken_stream_services "''gemma3:12b''" 0 "''Connection broken''" 1
      "\<lparr>status_code = 200,
        iter_lines =
          [Line (Parsed (JObj [(''status'', JStr ''pulling manifest'')])),
           Stream_raises (RequestException ''Connection broken'')]\<rparr>"
      "[Line (Parsed (JObj [(''status'', JStr ''pulling manifest'')]))]" "[]"
      0 "[]" False ZeroDivisionError]
    pull_failure_reporting [of silent_services "''gemma3:12b''" 1 "''''" 2
      "\<lparr>status_code = 404, iter_lines = []\<rparr>" "[]" "[]" 0 "[]" False ZeroDivisionError]
    pull_failure_reporting [of down_services "''gemma3:12b''" 1 "''Connection refused''" 2
      "\<lparr>status_code = 200, iter_lines = []\<rparr>" "[]" "[]" 0 "[]" False
      "ServiceError ''Ollama API is down''"]
  by (simp add: pull_eval ensure_ollama_model_available_def down_services_def
      silent_services_def broken_stream_services_def)

section \<open>Properties of the cleanup\<close>

text \<open>
  C8. The cleanup does not empty every output directory: \<^verbatim>\<open>glob\<close> with the pattern
  \<open>*\<close> leaves out the names that begin with a dot, so such a file, for instance the
  triaged copy of a ticket \<open>.draft.md\<close>, is still there afterwards, while the docstring
  promises that all files are removed.
\<close>

theorem clean_leaves_hidden_file:
  "clean_triaged_directory hidden_cwd
     = (Inr (),
        [(''tickets-original'', Dir [(''.draft.md'', File ''My printer is on fire.'')]),
         (''tickets-triaged'', Dir [(''.draft.md'', File ''My printer is on fire. (triaged)'')])])"
  by (simp add: hidden_cwd_def clean_triaged_directory_def glob_star_def os_remove_def
      AList.delete_eq)

text \<open>What the cleanup does remove: when the entries with a name that does not begin with a
  dot are regular files, they are all removed, the entries whose name begins with a dot
  stay, and nothing outside the output directory changes.\<close>

lemma remove_each_files:
  "map_of cwd d = Some (Dir entries) \<Longrightarrow>
   \<forall>n\<in>set names. \<exists>c. map_of entries n = Some (File c) \<Longrightarrow>
   distinct names \<Longrightarrow>
   \<exists>cwd'. remove_each d names cwd = (Inr (), cwd')
      \<and> map_of cwd' d = Some (Dir (filter (\<lambda>(n, _). n \<notin> set names) entries))
      \<and> (\<forall>x. x \<noteq> d \<longrightarrow> map_of cwd' x = map_of cwd x)"
proof (induction names arbitrary: cwd entries)
  case Nil
  then show ?case by simp
next
  case (Cons f names)
  from Cons.prems obtain c where c: "map_of entries f = Some (File c)" by auto
  let ?cwd1 = "AList.update d (Dir (AList.delete f entries)) cwd"
  have step: "os_remove cwd d f = Inr ?cwd1"
    using Cons.prems(1) c by (simp add: os_remove_def)
  have 1: "map_of ?cwd1 d = Some (Dir (AList.delete f entries))"
    by (simp add: update_conv')
  have 2: "\<forall>n\<in>set names. \<exists>c. map_of (AList.delete f entries) n = Some (File c)"
    using Cons.prems(2,3) by (auto simp: delete_conv')
  have 3: "distinct names" using Cons.prems(3) by simp
  from Cons.IH[OF 1 2 3] obtain cwd' where
    r: "remove_each d names ?cwd1 = (Inr (), cwd')"
    and m: "map_of cwd' d = Some (Dir (filter (\<lambda>(n, _). n \<notin> set names) (AList.delete f entries)))"
    and o: "\<forall>x. x \<noteq> d \<longrightarrow> map_of cwd' x = map_of ?cwd1 x"
    by blast
  have "filter (\<lambda>(n, _). n \<notin> set names) (AList.delete f entries)
      = filter (\<lambda>(n, _). n \<notin> set (f # names)) entries"
    by (auto simp: AList.delete_eq intro!: filter_cong)
  with r m o step show ?case
    by (auto simp: update_conv')
qed

lemma clean_removes_visible_files:
  assumes "map_of cwd ''tickets-triaged'' = Some (Dir entries)"
    and "distinct (map fst entries)"
    and "\<forall>(n, x)\<in>set entries. \<not> startswith n ''.'' \<longrightarrow> (\<exists>c. x = File c)"
  shows "\<exists>cwd'. clean_triaged_directory cwd = (Inr (), cwd')
      \<and> map_of cwd' ''tickets-triaged''
          = Some (Dir (filter (\<lambda>(n, _). startswith n ''.'') entries))
      \<and> (\<forall>x. x \<noteq> ''tickets-triaged'' \<longrightarrow> map_of cwd' x = map_of cwd x)"
proof -
  let ?names = "filter (\<lambda>name. \<not> startswith name ''.'') (map fst entries)"
  have g: "glob_star cwd ''tickets-triaged'' = ?names"
    using assms(1) by (simp add: glob_star_def)
  have files: "\<forall>n\<in>set ?names. \<exists>c. map_of entries n = Some (File c)"
    using assms(2,3) by fastforce
  have d: "distinct ?names"
    using assms(2) by simp
  from remove_each_files[OF assms(1) files d] obtain cwd' where
    r: "remove_each ''tickets-triaged'' ?names cwd = (Inr (), cwd')"
    and m: "map_of cwd' ''tickets-triaged''
              = Some (Dir (filter (\<lambda>(n, _). n \<notin> set ?names) entries))"
    and o: "\<forall>x. x \<noteq> ''tickets-triaged'' \<longrightarrow> map_of cwd' x = map_of cwd x"
    by blast
  have "filter (\<lambda>(n, _). n \<notin> set ?names) entries = filter (\<lambda>(n, _). startswith n ''.'') entries"
    by (rule filter_cong) force+
  with r m o g show ?thesis
    by (simp add: clean_triaged_directory_def)
qed

section \<open>Properties of the batch loop\<close>

lemmas loop_eval = triage_file_def selected_triage_def triage_ticket_gemini_def
  triage_ticket_ollama_def read_file_def write_file_def updated_content_def
  original_dir_def triaged_dir_def endswith_def AList.update_def strict_codec_def

text \<open>With Ollama selected and no model name, \<^verbatim>\<open>main\<close> raises before it touches a file
  or a service, so the loop is only ever entered with the model name set.\<close>

lemma main_requires_model:
  "falsy (environ ''OLLAMA_MODEL'') \<Longrightarrow>
   main encodable svc environ Ollama (cwd, s)
     = (Inl (ValueError ''OLLAMA_MODEL environment variable not set for the ollama model.''),
        (cwd, s))"
  by (cases "environ ''OLLAMA_MODEL''") (simp_all add: main_def)

lemma dirs_differ: "original_dir \<noteq> triaged_dir"
  by (simp add: original_dir_def triaged_dir_def)

text \<open>Once the checks before it have passed, \<^verbatim>\<open>main\<close> is the loop over the listing of
  the input directory, with the output directory created if it was not there.\<close>

lemma main_runs_loop:
  assumes "args_model = Ollama \<longrightarrow>
             (\<exists>m. environ ''OLLAMA_MODEL'' = Some m \<and> m \<noteq> []
                \<and> ensure_ollama_model_available svc m s = (Inr (), s1))"
    and "args_model = Gemini \<longrightarrow> s1 = s"
    and "map_of cwd original_dir = Some (Dir ins)"
  shows "main encodable svc environ args_model (cwd, s)
     = batch_loop encodable svc environ args_model (map fst ins)
         (if os_path_exists cwd triaged_dir then cwd else os_makedirs cwd triaged_dir, s1)"
proof -
  have "os_listdir (os_makedirs cwd triaged_dir) original_dir = Inr (map fst ins)"
    using assms(3) dirs_differ by (simp add: os_listdir_def os_makedirs_def update_conv')
  moreover have "os_listdir cwd original_dir = Inr (map fst ins)"
    using assms(3) by (simp add: os_listdir_def)
  ultimately show ?thesis
    using assms(1,2) by (cases args_model) (auto simp: main_def)
qed

lemma selected_triage_returns:
  "args_model = Ollama \<longrightarrow> \<not> falsy (environ ''OLLAMA_MODEL'') \<Longrightarrow>
   \<exists>report s'. selected_triage svc environ args_model C s = (Inr report, s')"
  by (cases "environ ''OLLAMA_MODEL''")
     (auto simp: selected_triage_def triage_ticket_ollama_def triage_ticket_gemini_def
        split: prod.splits reply.splits option.splits)

lemma batch_loop_append:
  "batch_loop encodable svc environ args_model (xs @ ys) w =
     (case batch_loop encodable svc environ args_model xs w of
        (Inl e, w') \<Rightarrow> (Inl e, w')
      | (Inr u, w') \<Rightarrow> batch_loop encodable svc environ args_model ys w')"
  by (induction xs arbitrary: w) (auto split: prod.splits sum.splits)

text \<open>Writing a file touches one entry of one directory, whatever comes of it, and
  writing the same text once more changes nothing further.\<close>

lemma write_file_frame:
  assumes "write_file encodable cwd d n data = (r, cwd')"
  shows "(\<forall>x. x \<noteq> d \<longrightarrow> map_of cwd' x = map_of cwd x)
     \<and> (\<forall>entries. map_of cwd d = Some (Dir entries) \<longrightarrow>
          (\<exists>entries'. map_of cwd' d = Some (Dir entries')
             \<and> (\<forall>m. m \<noteq> n \<longrightarrow> map_of entries' m = map_of entries m)))
     \<and> ((\<forall>entries. map_of cwd d \<noteq> Some (Dir entries)) \<longrightarrow> cwd' = cwd)"
  using assms
  by (auto simp: write_file_def update_conv' split: option.splits node.splits if_splits)

lemma write_file_again:
  assumes "write_file encodable cwd d n data = (r, cwd')"
  shows "write_file encodable cwd' d n data = (r, cwd')"
  using assms
  by (auto simp: write_file_def update_conv' update_triv split: option.splits node.splits if_splits)


text \<open>What one successful pass of the loop body has found and done.\<close>

lemma triage_file_success:
  assumes "triage_file encodable svc environ args_model filename (cwd, s) = (Inr (), (cwd', s'))"
  shows "\<exists>ins outs C report.
           map_of cwd original_dir = Some (Dir ins) \<and> map_of ins filename = Some (File C)
         \<and> selected_triage svc environ args_model C s = (Inr report, s')
         \<and> map_of cwd triaged_dir = Some (Dir outs)
         \<and> (\<forall>sub. map_of outs filename \<noteq> Some (Dir sub))
         \<and> encodable (updated_content C report)
         \<and> cwd' = AList.update triaged_dir
                    (Dir (AList.update filename (File (updated_content C report)) outs)) cwd"
  using assms
  by (simp add: triage_file_def read_file_def write_file_def
      split: sum.splits prod.splits option.splits node.splits if_splits)

lemma triage_file_runs:
  assumes "map_of cwd original_dir = Some (Dir ins)" "map_of ins filename = Some (File C)"
    and "map_of cwd triaged_dir = Some (Dir outs)"
    and "\<forall>sub. map_of outs filename \<noteq> Some (Dir sub)"
    and "selected_triage svc environ args_model C s = (Inr report, s')"
    and "encodable (updated_content C report)"
  shows "triage_file encodable svc environ args_model filename (cwd, s)
     = (Inr (), (AList.update triaged_dir
                    (Dir (AList.update filename (File (updated_content C report)) outs)) cwd, s'))"
  using assms
  by (auto simp add: triage_file_def read_file_def write_file_def
      split: sum.splits prod.splits option.splits node.splits)

text \<open>Whatever comes of it, a pass of the loop body changes at most the entry of its own
  name in the output directory.\<close>

lemma triage_file_frame:
  assumes "triage_file encodable svc environ args_model filename (cwd, s) = (r, (cwd', s'))"
  shows "(\<forall>x. x \<noteq> triaged_dir \<longrightarrow> map_of cwd' x = map_of cwd x)
     \<and> (\<forall>outs. map_of cwd triaged_dir = Some (Dir outs) \<longrightarrow>
          (\<exists>outs'. map_of cwd' triaged_dir = Some (Dir outs')
             \<and> (\<forall>m. m \<noteq> filename \<longrightarrow> map_of outs' m = map_of outs m)))"
proof (cases "read_file cwd original_dir filename")
  case (Inl e)
  with assms show ?thesis by (simp add: triage_file_def)
next
  case (Inr C)
  obtain t s2 where t: "selected_triage svc environ args_model C s = (t, s2)"
    by (cases "selected_triage svc environ args_model C s")
  show ?thesis
  proof (cases t)
    case (Inl e)
    with assms Inr t show ?thesis by (simp add: triage_file_def)
  next
    case (Inr report)
    obtain w cwd2 where w: "write_file encodable cwd triaged_dir filename
        (updated_content C report) = (w, cwd2)"
      by (cases "write_file encodable cwd triaged_dir filename (updated_content C report)")
    with assms \<open>read_file cwd original_dir filename = Inr C\<close> t Inr have "cwd' = cwd2"
      by (simp add: triage_file_def)
    with write_file_frame[OF w] show ?thesis by blast
  qed
qed

lemma batch_loop_frame_any:
  "batch_loop encodable svc environ args_model names (cwd, s) = (r, (cwd1, s1)) \<Longrightarrow>
   (\<forall>x. x \<noteq> triaged_dir \<longrightarrow> map_of cwd1 x = map_of cwd x)
   \<and> (\<forall>outs. map_of cwd triaged_dir = Some (Dir outs) \<longrightarrow>
        (\<exists>outs1. map_of cwd1 triaged_dir = Some (Dir outs1)
           \<and> (\<forall>n. \<not> (n \<in> set names \<and> endswith n ''.md'') \<longrightarrow> map_of outs1 n = map_of outs n)))"
proof (induction names arbitrary: cwd s)
  case Nil
  then show ?case by simp
next
  case (Cons f names)
  show ?case
  proof (cases "endswith f ''.md''")
    case False
    with Cons.prems
    have "batch_loop encodable svc environ args_model names (cwd, s) = (r, (cwd1, s1))"
      by simp
    from Cons.IH[OF this] False show ?thesis by auto
  next
    case True
    obtain r' cwd' s' where
      step: "triage_file encodable svc environ args_model f (cwd, s) = (r', (cwd', s'))"
      by (metis prod.collapse)
    note fr = triage_file_frame[OF step]
    show ?thesis
    proof (cases r')
      case (Inl e)
      with Cons.prems True step have c: "cwd1 = cwd'" by simp
      have other: "\<forall>n. \<not> (n \<in> set (f # names) \<and> endswith n ''.md'') \<longrightarrow> n \<noteq> f"
        using True by auto
      show ?thesis
      proof (intro conjI allI impI)
        fix x assume "x \<noteq> triaged_dir"
        with fr c show "map_of cwd1 x = map_of cwd x" by simp
      next
        fix outs assume "map_of cwd triaged_dir = Some (Dir outs)"
        with fr c obtain outs' where
          "map_of cwd1 triaged_dir = Some (Dir outs')"
          "\<forall>m. m \<noteq> f \<longrightarrow> map_of outs' m = map_of outs m"
          by blast
        with other show "\<exists>outs1. map_of cwd1 triaged_dir = Some (Dir outs1)
           \<and> (\<forall>n. \<not> (n \<in> set (f # names) \<and> endswith n ''.md'') \<longrightarrow> map_of outs1 n = map_of outs n)"
          by blast
      qed
    next
      case (Inr u)
      with Cons.prems True step have
        rest: "batch_loop encodable svc environ args_model names (cwd', s') = (r, (cwd1, s1))"
        by simp
      note ih = Cons.IH[OF rest]
      show ?thesis
      proof (intro conjI allI impI)
        fix x assume "x \<noteq> triaged_dir"
        with fr ih show "map_of cwd1 x = map_of cwd x" by simp
      next
        fix outs assume "map_of cwd triaged_dir = Some (Dir outs)"
        with fr obtain outs' where
          o': "map_of cwd' triaged_dir = Some (Dir outs')"
          and k: "\<forall>m. m \<noteq> f \<longrightarrow> map_of outs' m = map_of outs m"
          by blast
        from ih o' obtain outs1 where
          o1: "map_of cwd1 triaged_dir = Some (Dir outs1)"
          and k1: "\<forall>n. \<not> (n \<in> set names \<and> endswith n ''.md'') \<longrightarrow> map_of outs1 n = map_of outs' n"
          by blast
        have "\<forall>n. \<not> (n \<in> set (f # names) \<and> endswith n ''.md'') \<longrightarrow> n \<noteq> f"
          using True by auto
        then have "\<forall>n. \<not> (n \<in> set (f # names) \<and> endswith n ''.md'') \<longrightarrow> map_of outs1 n = map_of outs n"
          using k k1 by simp
        with o1 show "\<exists>outs1. map_of cwd1 triaged_dir = Some (Dir outs1)
           \<and> (\<forall>n. \<not> (n \<in> set (f # names) \<and> endswith n ''.md'') \<longrightarrow> map_of outs1 n = map_of outs n)"
          by blast
      qed
    qed
  qed
qed



text \<open>A run of the loop that ends normally changes the output directory only, and there only
  the entries of the names ending in \<open>.md\<close> that it went through.\<close>

lemma batch_loop_frame:
  "batch_loop encodable svc environ args_model names (cwd, s) = (Inr (), (cwd1, s1)) \<Longrightarrow>
   (\<forall>x. x \<noteq> triaged_dir \<longrightarrow> map_of cwd1 x = map_of cwd x)
   \<and> (\<forall>outs. map_of cwd triaged_dir = Some (Dir outs) \<longrightarrow>
        (\<exists>outs1. map_of cwd1 triaged_dir = Some (Dir outs1)
           \<and> (\<forall>n. \<not> (n \<in> set names \<and> endswith n ''.md'') \<longrightarrow> map_of outs1 n = map_of outs n)
           \<and> (\<forall>n\<in>set names. endswith n ''.md'' \<longrightarrow> (\<exists>c. map_of outs1 n = Some (File c)))
           \<and> set (map fst outs1) = set (map fst outs) \<union> {n \<in> set names. endswith n ''.md''}
           \<and> (distinct (map fst outs) \<longrightarrow> distinct (map fst outs1))))"
proof (induction names arbitrary: cwd s)
  case Nil
  then show ?case by simp
next
  case (Cons f names)
  show ?case
  proof (cases "endswith f ''.md''")
    case False
    with Cons.prems have "batch_loop encodable svc environ args_model names (cwd, s) = (Inr (), (cwd1, s1))"
      by simp
    from Cons.IH[OF this] False show ?thesis by auto
  next
    case True
    with Cons.prems obtain cwd' s' where
      step: "triage_file encodable svc environ args_model f (cwd, s) = (Inr (), (cwd', s'))"
      and rest: "batch_loop encodable svc environ args_model names (cwd', s') = (Inr (), (cwd1, s1))"
      by (auto split: prod.splits sum.splits)
    from triage_file_success[OF step] obtain ins outs C report where
      o: "map_of cwd triaged_dir = Some (Dir outs)"
      and c: "cwd' = AList.update triaged_dir
                    (Dir (AList.update f (File (updated_content C report)) outs)) cwd"
      by blast
    let ?outs' = "AList.update f (File (updated_content C report)) outs"
    have o': "map_of cwd' triaged_dir = Some (Dir ?outs')"
      by (simp add: c update_conv')
    have other: "\<forall>x. x \<noteq> triaged_dir \<longrightarrow> map_of cwd' x = map_of cwd x"
      by (simp add: c update_conv')
    from Cons.IH[OF rest] o' obtain outs1 where
      a: "\<forall>x. x \<noteq> triaged_dir \<longrightarrow> map_of cwd1 x = map_of cwd' x"
      and b: "map_of cwd1 triaged_dir = Some (Dir outs1)"
      and d: "\<forall>n. \<not> (n \<in> set names \<and> endswith n ''.md'') \<longrightarrow> map_of outs1 n = map_of ?outs' n"
      and e: "\<forall>n\<in>set names. endswith n ''.md'' \<longrightarrow> (\<exists>c. map_of outs1 n = Some (File c))"
      and g: "set (map fst outs1) = set (map fst ?outs') \<union> {n \<in> set names. endswith n ''.md''}"
      and h: "distinct (map fst ?outs') \<longrightarrow> distinct (map fst outs1)"
      by blast
    have 1: "\<forall>x. x \<noteq> triaged_dir \<longrightarrow> map_of cwd1 x = map_of cwd x"
      using a other by simp
    have 2: "\<forall>n. \<not> (n \<in> set (f # names) \<and> endswith n ''.md'') \<longrightarrow> map_of outs1 n = map_of outs n"
      using d True by (auto simp: update_conv')
    have 3: "\<forall>n\<in>set (f # names). endswith n ''.md'' \<longrightarrow> (\<exists>c. map_of outs1 n = Some (File c))"
    proof (intro ballI impI)
      fix n assume n: "n \<in> set (f # names)" "endswith n ''.md''"
      show "\<exists>c. map_of outs1 n = Some (File c)"
      proof (cases "n \<in> set names")
        case True
        with e n show ?thesis by blast
      next
        case False
        with n have "n = f" by simp
        with d False show ?thesis by (simp add: update_conv')
      qed
    qed
    have 4: "set (map fst outs1) = set (map fst outs) \<union> {n \<in> set (f # names). endswith n ''.md''}"
      using g True by (auto simp: dom_update)
    have 5: "distinct (map fst outs) \<longrightarrow> distinct (map fst outs1)"
      using h by (simp add: distinct_update)
    from o b 1 2 3 4 5 show ?thesis by simp
  qed
qed

text \<open>The loop gets through, given that the names ending in \<open>.md\<close> are regular files with
  a text, that no directory stands in the place of an output file, that the model is set
  and that the codec accepts what is to be written.\<close>

lemma batch_loop_runs:
  assumes "map_of cwd original_dir = Some (Dir ins)"
    and "map_of cwd triaged_dir = Some (Dir outs)"
    and "\<forall>n\<in>set names. endswith n ''.md'' \<longrightarrow> (\<exists>c. map_of ins n = Some (File c))"
    and "\<forall>n\<in>set names. endswith n ''.md'' \<longrightarrow> (\<forall>sub. map_of outs n \<noteq> Some (Dir sub))"
    and "args_model = Ollama \<longrightarrow> \<not> falsy (environ ''OLLAMA_MODEL'')"
    and "\<forall>n\<in>set names. endswith n ''.md'' \<longrightarrow>
           (\<forall>C t report t'. map_of ins n = Some (File C)
              \<and> selected_triage svc environ args_model C t = (Inr report, t')
              \<longrightarrow> encodable (updated_content C report))"
  shows "\<exists>cwd1 s1. batch_loop encodable svc environ args_model names (cwd, s) = (Inr (), (cwd1, s1))"
  using assms
proof (induction names arbitrary: cwd s outs)
  case Nil
  then show ?case by simp
next
  case (Cons f names)
  have rest3: "\<forall>n\<in>set names. endswith n ''.md'' \<longrightarrow> (\<exists>c. map_of ins n = Some (File c))"
    using Cons.prems(3) by simp
  have rest6: "\<forall>n\<in>set names. endswith n ''.md'' \<longrightarrow>
           (\<forall>C t report t'. map_of ins n = Some (File C)
              \<and> selected_triage svc environ args_model C t = (Inr report, t')
              \<longrightarrow> encodable (updated_content C report))"
    using Cons.prems(6) by (meson list.set_intros(2))
  show ?case
  proof (cases "endswith f ''.md''")
    case False
    have rest4: "\<forall>n\<in>set names. endswith n ''.md'' \<longrightarrow> (\<forall>sub. map_of outs n \<noteq> Some (Dir sub))"
      using Cons.prems(4) by simp
    have "\<exists>cwd1 s1. batch_loop encodable svc environ args_model names (cwd, s) = (Inr (), (cwd1, s1))"
      using Cons.prems(1,2) rest3 rest4 Cons.prems(5) rest6 by (rule Cons.IH)
    with False show ?thesis by simp
  next
    case True
    with Cons.prems(3) obtain C where C: "map_of ins f = Some (File C)" by auto
    from Cons.prems(5) have "\<exists>report s'. selected_triage svc environ args_model C s = (Inr report, s')"
      by (rule selected_triage_returns)
    then obtain report s' where
      t: "selected_triage svc environ args_model C s = (Inr report, s')" by blast
    have enc: "encodable (updated_content C report)"
      using Cons.prems(6) True C t by (meson list.set_intros(1))
    let ?outs' = "AList.update f (File (updated_content C report)) outs"
    let ?cwd' = "AList.update triaged_dir (Dir ?outs') cwd"
    have nd: "\<forall>sub. map_of outs f \<noteq> Some (Dir sub)"
      using Cons.prems(4) True by simp
    have step: "triage_file encodable svc environ args_model f (cwd, s) = (Inr (), (?cwd', s'))"
      by (rule triage_file_runs[where encodable = encodable, OF Cons.prems(1) C Cons.prems(2) nd t enc])
    have 1: "map_of ?cwd' original_dir = Some (Dir ins)"
      using Cons.prems(1) dirs_differ by (simp add: update_conv')
    have 2: "map_of ?cwd' triaged_dir = Some (Dir ?outs')"
      by (simp add: update_conv')
    have 4: "\<forall>n\<in>set names. endswith n ''.md'' \<longrightarrow> (\<forall>sub. map_of ?outs' n \<noteq> Some (Dir sub))"
      using Cons.prems(4) by (simp add: update_conv')
    have "\<exists>cwd1 s1. batch_loop encodable svc environ args_model names (?cwd', s') = (Inr (), (cwd1, s1))"
      using 1 2 rest3 4 Cons.prems(5) rest6 by (rule Cons.IH)
    then obtain cwd1 s1 where
      "batch_loop encodable svc environ args_model names (?cwd', s') = (Inr (), (cwd1, s1))" by blast
    with step True show ?thesis by simp
  qed
qed


text \<open>
  C1. Not every run of the loop gives each input file ending in \<open>.md\<close> its output file.
  The loop has no handler of its own, so the first exception ends it: a directory named
  like a ticket, a ticket whose bytes are no UTF-8, a directory in the place of an output
  file, a report that the codec cannot encode (which leaves that output file empty), or a
  regular file in the place of the output directory. In each of the five runs a ticket
  \<open>a.md\<close> or \<open>b.md\<close> of the input directory ends up without its output.
\<close>

theorem every_md_file_one_output_counterexample:
  "batch_loop strict_codec progress_services test_environ Gemini [''archive.md'', ''a.md'']
       (archive_cwd, 0)
     = (Inl IsADirectoryError, (archive_cwd, 0))
   \<and> batch_loop strict_codec progress_services test_environ Gemini [''scan.md'', ''a.md'']
       (scan_cwd, 0)
     = (Inl UnicodeDecodeError, (scan_cwd, 0))
   \<and> batch_loop strict_codec progress_services test_environ Gemini [''a.md'', ''b.md'']
       (blocked_cwd, 0)
     = (Inl IsADirectoryError, (blocked_cwd, 1))
   \<and> batch_loop strict_codec surrogate_services test_environ Gemini [''a.md'', ''b.md'']
       (pair_cwd, 0)
     = (Inl UnicodeEncodeError,
        ([(''tickets-original'',
             Dir [(''a.md'', File ''My printer is on fire.''), (''b.md'', File ''No network.'')]),
          (''tickets-triaged'', Dir [(''a.md'', File [])])], 1))
   \<and> batch_loop strict_codec progress_services test_environ Gemini [''a.md'']
       (misplaced_cwd, 0)
     = (Inl NotADirectoryError, (misplaced_cwd, 1))"
  by (simp add: loop_eval archive_cwd_def scan_cwd_def blocked_cwd_def pair_cwd_def
      misplaced_cwd_def progress_services_def surrogate_services_def)

text \<open>
  C1 as amended. Let the loop run over the listing of the input directory, where every
  entry whose name ends in \<open>.md\<close> is a regular file with a UTF-8 text, while the output
  directory is a directory and holds no directory under such a name, the codec accepts
  the combined text of every such ticket with any report its adapter returns for it, and
  the model name is set when Ollama is selected (\<^verbatim>\<open>main\<close> has checked that before the
  loop). Then, whether the services answer or fail, the loop ends without an exception;
  afterwards the output directory holds, under distinct names, a regular file for each
  input name ending in \<open>.md\<close>; every name not ending in \<open>.md\<close> has the entry it had
  before, or none; the names in the output directory are the former ones and the input
  names ending in \<open>.md\<close>; and the number of entries grew by the number of such names
  that were not there yet, so an output directory that was empty holds exactly as many
  files as there are input names ending in \<open>.md\<close>.
\<close>

theorem every_md_file_one_output:
  assumes "map_of cwd original_dir = Some (Dir ins)" and "distinct (map fst ins)"
    and "map_of cwd triaged_dir = Some (Dir outs)" and "distinct (map fst outs)"
    and "\<forall>n\<in>set (map fst ins). endswith n ''.md'' \<longrightarrow> (\<exists>c. map_of ins n = Some (File c))"
    and "\<forall>n\<in>set (map fst ins). endswith n ''.md'' \<longrightarrow> (\<forall>sub. map_of outs n \<noteq> Some (Dir sub))"
    and "args_model = Ollama \<longrightarrow> \<not> falsy (environ ''OLLAMA_MODEL'')"
    and "\<forall>n\<in>set (map fst ins). endswith n ''.md'' \<longrightarrow>
           (\<forall>C t report t'. map_of ins n = Some (File C)
              \<and> (if args_model = Ollama then triage_ticket_ollama svc environ C t
                  else triage_ticket_gemini svc C t) = (Inr report, t')
              \<longrightarrow> encodable (updated_content C report))"
  shows "\<exists>cwd1 s1 outs1.
      batch_loop encodable svc environ args_model (map fst ins) (cwd, s) = (Inr (), (cwd1, s1))
    \<and> map_of cwd1 triaged_dir = Some (Dir outs1) \<and> distinct (map fst outs1)
    \<and> (\<forall>n\<in>set (map fst ins). endswith n ''.md'' \<longrightarrow> (\<exists>c. map_of outs1 n = Some (File c)))
    \<and> (\<forall>n. \<not> endswith n ''.md'' \<longrightarrow> map_of outs1 n = map_of outs n)
    \<and> set (map fst outs1) = set (map fst outs) \<union> {n \<in> set (map fst ins). endswith n ''.md''}
    \<and> length outs1 = length outs
         + length (filter (\<lambda>n. endswith n ''.md'' \<and> n \<notin> set (map fst outs)) (map fst ins))"
proof -
  let ?names = "map fst ins"
  have enc: "\<forall>n\<in>set ?names. endswith n ''.md'' \<longrightarrow>
           (\<forall>C t report t'. map_of ins n = Some (File C)
              \<and> selected_triage svc environ args_model C t = (Inr report, t')
              \<longrightarrow> encodable (updated_content C report))"
    using assms(8) by (simp add: selected_triage_def)
  have "\<exists>cwd1 s1. batch_loop encodable svc environ args_model ?names (cwd, s) = (Inr (), (cwd1, s1))"
    using assms(1,3,5,6,7) enc by (rule batch_loop_runs)
  then obtain cwd1 s1 where
    run: "batch_loop encodable svc environ args_model ?names (cwd, s) = (Inr (), (cwd1, s1))"
    by blast
  from batch_loop_frame[OF run] assms(3,4) obtain outs1 where
    b: "map_of cwd1 triaged_dir = Some (Dir outs1)"
    and d: "\<forall>n. \<not> (n \<in> set ?names \<and> endswith n ''.md'') \<longrightarrow> map_of outs1 n = map_of outs n"
    and e: "\<forall>n\<in>set ?names. endswith n ''.md'' \<longrightarrow> (\<exists>c. map_of outs1 n = Some (File c))"
    and g: "set (map fst outs1) = set (map fst outs) \<union> {n \<in> set ?names. endswith n ''.md''}"
    and h: "distinct (map fst outs1)"
    by blast
  let ?new = "filter (\<lambda>n. endswith n ''.md'' \<and> n \<notin> set (map fst outs)) ?names"
  have dn: "distinct ?new" using assms(2) by simp
  have "set (map fst outs1) = set (map fst outs) \<union> set ?new"
    using g by auto
  moreover have "set (map fst outs) \<inter> set ?new = {}" by auto
  ultimately have "card (set (map fst outs1)) = card (set (map fst outs)) + card (set ?new)"
    by (simp add: card_Un_disjoint)
  then have len: "length outs1 = length outs + length ?new"
    using h assms(4) dn by (simp add: distinct_card del: set_map set_filter)
  from run b h e d g len show ?thesis by blast
qed

theorem every_md_file_one_output_witness:
  \<open>batch_loop strict_codec down_services test_environ Gemini (map fst inbox_tickets)
       (inbox_cwd, 0)
     = (Inr (),
        ([(''tickets-original'', Dir inbox_tickets),
          (''tickets-triaged'',
             Dir [(''b.md'', File ''No network.\<newline>\<newline>---\<newline>\<newline>**Status:** new\<newline>\<newline>---\<newline>\<newline>## Triage\<newline>\<newline>Error during Gemini triage: Gemini API is down''),
                  (''a.md'', File ''My printer is on fire.\<newline>\<newline>---\<newline>\<newline>**Status:** new\<newline>\<newline>---\<newline>\<newline>## Triage\<newline>\<newline>Error during Gemini triage: Gemini API is down'')])],
         2))\<close>
proof -
  have 1: "map_of inbox_cwd original_dir = Some (Dir inbox_tickets)"
    by (simp add: inbox_cwd_def original_dir_def)
  have 2: "distinct (map fst inbox_tickets)"
    by (simp add: inbox_tickets_def)
  have 3: "map_of inbox_cwd triaged_dir = Some (Dir stale_outputs)"
    by (simp add: inbox_cwd_def triaged_dir_def)
  have 4: "distinct (map fst stale_outputs)"
    by (simp add: stale_outputs_def)
  have 5: "\<forall>n\<in>set (map fst inbox_tickets).
             endswith n ''.md'' \<longrightarrow> (\<exists>c. map_of inbox_tickets n = Some (File c))"
    by (simp add: inbox_tickets_def endswith_def)
  have 6: "\<forall>n\<in>set (map fst inbox_tickets).
             endswith n ''.md'' \<longrightarrow> (\<forall>sub. map_of stale_outputs n \<noteq> Some (Dir sub))"
    by (simp add: inbox_tickets_def stale_outputs_def endswith_def)
  have 7: "Gemini = Ollama \<longrightarrow> \<not> falsy (test_environ ''OLLAMA_MODEL'')"
    by simp
  have 8: "\<forall>n\<in>set (map fst inbox_tickets). endswith n ''.md'' \<longrightarrow>
           (\<forall>C t report t'. map_of inbox_tickets n = Some (File C)
              \<and> (if Gemini = Ollama then triage_ticket_ollama down_services test_environ C t
                  else triage_ticket_gemini down_services C t) = (Inr report, t')
              \<longrightarrow> strict_codec (updated_content C report))"
    by (auto simp: inbox_tickets_def endswith_def triage_ticket_gemini_def down_services_def
        strict_codec_def updated_content_def)
  from every_md_file_one_output
         [where encodable = strict_codec and environ = test_environ and args_model = Gemini
            and svc = down_services and s = 0, OF 1 2 3 4 5 6 7 8]
  show ?thesis
    by (simp add: loop_eval inbox_cwd_def inbox_tickets_def stale_outputs_def down_services_def)
qed

text \<open>
  C5. Take a file \<open>filename\<close> ending in \<open>.md\<close> with content \<open>C\<close> that the loop has
  processed: it got through the names \<open>before\<close> it and through the file itself without an
  exception. Then the adapter of the selected backend, \<^verbatim>\<open>triage_ticket_ollama\<close> for
  Ollama and \<^verbatim>\<open>triage_ticket_gemini\<close> for Gemini, was called on \<open>C\<close> itself in the state
  of the services reached after the names before, and returned a report; and when the
  loop has ended, however it went for the names after, the file of the same name in the
  output directory reads \<open>C\<close>, then the status block, then the triage separator, then
  that report, whatever was stored under that name before. In the witness the service
  tells the prompt of the ticket from any other request.
\<close>

theorem output_is_ticket_status_triage:
  assumes "batch_loop encodable svc environ args_model (before @ [filename]) (cwd, s)
             = (Inr (), (cwd_f, s_f))"
    and "batch_loop encodable svc environ args_model (before @ filename # after) (cwd, s)
           = (r, (cwd1, s1))"
    and "endswith filename ''.md''" and "filename \<notin> set after"
    and "read_file cwd original_dir filename = Inr C"
  shows \<open>\<exists>cwd_b s_b report.
      batch_loop encodable svc environ args_model before (cwd, s) = (Inr (), (cwd_b, s_b))
    \<and> (if args_model = Ollama then triage_ticket_ollama svc environ C s_b
        else triage_ticket_gemini svc C s_b) = (Inr report, s_f)
    \<and> read_file cwd1 triaged_dir filename
        = Inr (C @ ''\<newline>\<newline>---\<newline>\<newline>**Status:** new''
                 @ ''\<newline>\<newline>---\<newline>\<newline>## Triage\<newline>\<newline>'' @ report)\<close>
proof -
  \<comment> \<open>the names before \<open>filename\<close>, then the body for \<open>filename\<close>\<close>
  obtain rb cwd_b s_b where
    run_b: "batch_loop encodable svc environ args_model before (cwd, s) = (rb, (cwd_b, s_b))"
    by (metis prod.collapse)
  have rb: "rb = Inr ()"
    using assms(1) run_b by (cases rb) (simp_all add: batch_loop_append)
  have step: "triage_file encodable svc environ args_model filename (cwd_b, s_b)
                = (Inr (), (cwd_f, s_f))"
    using assms(1,3) run_b rb
    by (simp add: batch_loop_append split: prod.splits sum.splits)
  from triage_file_success[OF step] obtain ins outs C' report where
    i_b: "map_of cwd_b original_dir = Some (Dir ins)"
    and c': "map_of ins filename = Some (File C')"
    and tr: "selected_triage svc environ args_model C' s_b = (Inr report, s_f)"
    and f: "cwd_f = AList.update triaged_dir
                    (Dir (AList.update filename (File (updated_content C' report)) outs)) cwd_b"
    by blast
  \<comment> \<open>the input directory is the one the loop started from\<close>
  from batch_loop_frame_any[OF run_b] dirs_differ
  have "map_of cwd_b original_dir = map_of cwd original_dir"
    by simp
  with i_b c' have "read_file cwd original_dir filename = Inr C'"
    by (simp add: read_file_def)
  with assms(5) have C: "C' = C" by simp
  \<comment> \<open>the names after it leave the file alone, however they end\<close>
  let ?data = "updated_content C report"
  let ?outs_f = "AList.update filename (File ?data) outs"
  have o_f: "map_of cwd_f triaged_dir = Some (Dir ?outs_f)"
    using f C by (simp add: update_conv')
  have run_a: "batch_loop encodable svc environ args_model after (cwd_f, s_f) = (r, (cwd1, s1))"
  proof -
    have "before @ filename # after = (before @ [filename]) @ after" by simp
    then have "batch_loop encodable svc environ args_model ((before @ [filename]) @ after) (cwd, s)
                 = (r, (cwd1, s1))"
      using assms(2) by simp
    then show ?thesis
      using assms(1) by (simp only: batch_loop_append) simp
  qed
  from batch_loop_frame_any[OF run_a] o_f obtain outs1 where
    o1: "map_of cwd1 triaged_dir = Some (Dir outs1)"
    and same: "\<forall>n. \<not> (n \<in> set after \<and> endswith n ''.md'') \<longrightarrow> map_of outs1 n = map_of ?outs_f n"
    by blast
  have "map_of outs1 filename = Some (File ?data)"
    using same assms(4) by (simp add: update_conv')
  with o1 have rd: "read_file cwd1 triaged_dir filename = Inr ?data"
    by (simp add: read_file_def)
  from run_b rb tr C rd show ?thesis
    by (simp add: updated_content_def selected_triage_def)
qed

theorem output_is_ticket_status_triage_witness:
  \<open>batch_loop strict_codec attentive_services test_environ Ollama [''a.md'', ''notes.txt'']
       (inbox_cwd, 0)
     = (Inr (),
        ([(''tickets-original'', Dir inbox_tickets),
          (''tickets-triaged'',
             Dir [(''b.md'', File ''stale''),
                  (''a.md'', File ''My printer is on fire.\<newline>\<newline>---\<newline>\<newline>**Status:** new\<newline>\<newline>---\<newline>\<newline>## Triage\<newline>\<newline>Urgency: Low'')])],
         1))
   \<and> triage_ticket_ollama attentive_services test_environ ''No network.'' 1
       = (Inr ''Urgency: High'', 2)
   \<and> read_file
        (fst (snd (batch_loop strict_codec attentive_services test_environ Ollama
                     [''a.md'', ''notes.txt'', ''b.md''] (inbox_cwd, 0))))
        triaged_dir ''b.md''
       = Inr ''No network.\<newline>\<newline>---\<newline>\<newline>**Status:** new\<newline>\<newline>---\<newline>\<newline>## Triage\<newline>\<newline>Urgency: High''\<close>
proof -
  let ?run = "batch_loop strict_codec attentive_services test_environ Ollama
                ([''a.md'', ''notes.txt''] @ ''b.md'' # []) (inbox_cwd, 0)"
  have 1: "batch_loop strict_codec attentive_services test_environ Ollama
             ([''a.md'', ''notes.txt''] @ [''b.md'']) (inbox_cwd, 0)
           = (Inr (), (fst (snd ?run), 2))"
    by (simp add: loop_eval inbox_cwd_def inbox_tickets_def stale_outputs_def
        attentive_services_def test_environ_def ollama_prompt_def)
  have 2: "?run = (fst ?run, (fst (snd ?run), snd (snd ?run)))"
    by simp
  have 3: "endswith ''b.md'' ''.md''"
    by (simp add: endswith_def)
  have 4: "''b.md'' \<notin> set []"
    by simp
  have 5: "read_file inbox_cwd original_dir ''b.md'' = Inr ''No network.''"
    by (simp add: read_file_def inbox_cwd_def inbox_tickets_def original_dir_def)
  from output_is_ticket_status_triage
         [where encodable = strict_codec and environ = test_environ and args_model = Ollama
            and svc = attentive_services, OF 1 2 3 4 5]
  show ?thesis
    by (simp add: loop_eval inbox_cwd_def inbox_tickets_def stale_outputs_def
        attentive_services_def test_environ_def ollama_prompt_def)
qed

text \<open>
  C9. A second run over the same input need not write the same files: the report comes
  from the service at the time of the call. Here the service is down during the first
  run and answers during the second, and the two outputs for \<open>a.md\<close> differ.
\<close>

theorem batch_rerun_counterexample:
  \<open>batch_loop strict_codec recovering_services test_environ Gemini [''a.md''] (single_cwd, 0)
     = (Inr (),
        ([(''tickets-original'', Dir [(''a.md'', File ''My printer is on fire.'')]),
          (''tickets-triaged'',
             Dir [(''a.md'', File ''My printer is on fire.\<newline>\<newline>---\<newline>\<newline>**Status:** new\<newline>\<newline>---\<newline>\<newline>## Triage\<newline>\<newline>Error during Gemini triage: Gemini API is down'')])],
         1))
   \<and> batch_loop strict_codec recovering_services test_environ Gemini [''a.md'']
       ([(''tickets-original'', Dir [(''a.md'', File ''My printer is on fire.'')]),
         (''tickets-triaged'',
            Dir [(''a.md'', File ''My printer is on fire.\<newline>\<newline>---\<newline>\<newline>**Status:** new\<newline>\<newline>---\<newline>\<newline>## Triage\<newline>\<newline>Error during Gemini triage: Gemini API is down'')])],
        1)
     = (Inr (),
        ([(''tickets-original'', Dir [(''a.md'', File ''My printer is on fire.'')]),
          (''tickets-triaged'',
             Dir [(''a.md'', File ''My printer is on fire.\<newline>\<newline>---\<newline>\<newline>**Status:** new\<newline>\<newline>---\<newline>\<newline>## Triage\<newline>\<newline>Urgency: High'')])],
         2))\<close>
  by (simp add: loop_eval single_cwd_def recovering_services_def)

text \<open>With services that answer equal requests equally, the report for a ticket does not
  depend on when it is asked for.\<close>

lemma selected_triage_deterministic:
  assumes "\<forall>model messages s1 s2.
             fst (ollama_chat svc model messages s1) = fst (ollama_chat svc model messages s2)"
    and "\<forall>model contents s1 s2.
           fst (gemini_generate_content svc model contents s1)
             = fst (gemini_generate_content svc model contents s2)"
  shows "fst (selected_triage svc environ args_model C s1)
           = fst (selected_triage svc environ args_model C s2)"
proof -
  have o: "fst (triage_ticket_ollama svc environ C t) =
      (case environ ''OLLAMA_MODEL'' of
         None \<Rightarrow> Inl (ValueError ''OLLAMA_MODEL environment variable not set.'')
       | Some m \<Rightarrow>
           if falsy (Some m) then Inl (ValueError ''OLLAMA_MODEL environment variable not set.'')
           else (case fst (ollama_chat svc m [(''user'', ollama_prompt C)] t) of
                   Returns c \<Rightarrow> Inr c
                 | Raises e \<Rightarrow> Inr (''Error during Ollama triage: '' @ e)))" for t
    by (auto simp: triage_ticket_ollama_def split: option.splits prod.splits reply.splits)
  have g: "fst (triage_ticket_gemini svc C t) =
      (case fst (gemini_generate_content svc ''gemini-2.5-flash'' (gemini_prompt C) t) of
         Returns a \<Rightarrow>
           Inr (case a of
                  None \<Rightarrow> ''Error: Empty response from Gemini.''
                | Some x \<Rightarrow> if falsy (Some x) then ''Error: Empty response from Gemini.'' else x)
       | Raises e \<Rightarrow> Inr (''Error during Gemini triage: '' @ e))" for t
    by (auto simp: triage_ticket_gemini_def split: option.splits prod.splits reply.splits)
  have e1: "fst (ollama_chat svc m msgs s1) = fst (ollama_chat svc m msgs s2)" for m msgs
    using assms(1) by blast
  have e2: "fst (gemini_generate_content svc m c s1) = fst (gemini_generate_content svc m c s2)"
    for m c
    using assms(2) by blast
  show ?thesis
    by (simp add: selected_triage_def o g e1 e2 split: option.splits)
qed

text \<open>With such services, the loop body run once more on what it has left behind ends the
  same way and changes nothing.\<close>

lemma triage_file_again:
  assumes "\<forall>model messages s1 s2.
             fst (ollama_chat svc model messages s1) = fst (ollama_chat svc model messages s2)"
    and "\<forall>model contents s1 s2.
           fst (gemini_generate_content svc model contents s1)
             = fst (gemini_generate_content svc model contents s2)"
    and "triage_file encodable svc environ args_model f (cwd, s) = (r, (cwd', s'))"
  shows "\<exists>t'. triage_file encodable svc environ args_model f (cwd', t) = (r, (cwd', t'))"
proof (cases "read_file cwd original_dir f")
  case (Inl e)
  with assms(3) show ?thesis by (simp add: triage_file_def)
next
  case (Inr C)
  obtain x s2 where x: "selected_triage svc environ args_model C s = (x, s2)"
    by (metis prod.collapse)
  obtain y t2 where y: "selected_triage svc environ args_model C t = (y, t2)"
    by (metis prod.collapse)
  have "fst (selected_triage svc environ args_model C t)
          = fst (selected_triage svc environ args_model C s)"
    using assms(1,2) by (rule selected_triage_deterministic)
  with x y have yx: "y = x" by simp
  show ?thesis
  proof (cases x)
    case (Inl e)
    with assms(3) Inr x have "cwd' = cwd" "r = Inl e" by (simp_all add: triage_file_def)
    with Inr y yx Inl show ?thesis by (simp add: triage_file_def)
  next
    case (Inr report)
    obtain w cwd2 where w: "write_file encodable cwd triaged_dir f (updated_content C report)
        = (w, cwd2)"
      by (metis prod.collapse)
    with assms(3) \<open>read_file cwd original_dir f = Inr C\<close> x Inr
    have c: "cwd' = cwd2" and r: "r = w"
      by (simp_all add: triage_file_def)
    from write_file_frame[OF w] dirs_differ
    have "map_of cwd2 original_dir = map_of cwd original_dir" by simp
    then have rd: "read_file cwd2 original_dir f = Inr C"
      using \<open>read_file cwd original_dir f = Inr C\<close> by (simp add: read_file_def)
    from write_file_again[OF w] rd y yx Inr c r show ?thesis
      by (simp add: triage_file_def)
  qed
qed

text \<open>A name is settled in a directory tree when the loop body for it ends normally and leaves
  the tree as it is. The two lemmas say what that means for the tree.\<close>

lemma settled_structure:
  assumes "triage_file encodable svc environ args_model f (cwd, t) = (Inr (), (cwd, t'))"
  shows "\<exists>ins outs C report.
           map_of cwd original_dir = Some (Dir ins) \<and> map_of ins f = Some (File C)
         \<and> selected_triage svc environ args_model C t = (Inr report, t')
         \<and> map_of cwd triaged_dir = Some (Dir outs)
         \<and> map_of outs f = Some (File (updated_content C report))
         \<and> encodable (updated_content C report)"
proof -
  from triage_file_success[OF assms] obtain ins outs C report where
    i: "map_of cwd original_dir = Some (Dir ins)" "map_of ins f = Some (File C)"
    and tr: "selected_triage svc environ args_model C t = (Inr report, t')"
    and o: "map_of cwd triaged_dir = Some (Dir outs)"
    and enc: "encodable (updated_content C report)"
    and c: "cwd = AList.update triaged_dir
                    (Dir (AList.update f (File (updated_content C report)) outs)) cwd"
    by blast
  have "map_of cwd triaged_dir
          = Some (Dir (AList.update f (File (updated_content C report)) outs))"
    by (subst c) (simp add: update_conv')
  with o have "outs = AList.update f (File (updated_content C report)) outs"
    by simp
  then have "map_of outs f = map_of (AList.update f (File (updated_content C report)) outs) f"
    by simp
  then have "map_of outs f = Some (File (updated_content C report))"
    by (simp add: update_conv')
  with i tr o enc show ?thesis by blast
qed

lemma structure_settled:
  assumes "map_of cwd original_dir = Some (Dir ins)" "map_of ins f = Some (File C)"
    and "map_of cwd triaged_dir = Some (Dir outs)"
    and "map_of outs f = Some (File (updated_content C report))"
    and "encodable (updated_content C report)"
    and "\<forall>t. fst (selected_triage svc environ args_model C t) = Inr report"
  shows "\<exists>t'. triage_file encodable svc environ args_model f (cwd, t) = (Inr (), (cwd, t'))"
proof -
  obtain t' where tr: "selected_triage svc environ args_model C t = (Inr report, t')"
    using assms(6) by (metis prod.collapse)
  have nd: "\<forall>sub. map_of outs f \<noteq> Some (Dir sub)"
    using assms(4) by simp
  have same: "AList.update triaged_dir
                (Dir (AList.update f (File (updated_content C report)) outs)) cwd = cwd"
    using assms(3,4) by (simp add: update_triv)
  have "triage_file encodable svc environ args_model f (cwd, t)
     = (Inr (), (AList.update triaged_dir
                    (Dir (AList.update f (File (updated_content C report)) outs)) cwd, t'))"
    by (rule triage_file_runs[where encodable = encodable, OF assms(1,2,3) nd tr assms(5)])
  with same show ?thesis by simp
qed

text \<open>With services that answer equal requests equally, a settled name stays settled through
  the loop body for any name, and so through the loop.\<close>

lemma settled_preserved:
  assumes "\<forall>model messages s1 s2.
             fst (ollama_chat svc model messages s1) = fst (ollama_chat svc model messages s2)"
    and "\<forall>model contents s1 s2.
           fst (gemini_generate_content svc model contents s1)
             = fst (gemini_generate_content svc model contents s2)"
    and "\<forall>t. \<exists>t'. triage_file encodable svc environ args_model f (cwd, t) = (Inr (), (cwd, t'))"
    and "triage_file encodable svc environ args_model g (cwd, s) = (r, (cwd', s'))"
  shows "\<forall>t. \<exists>t'. triage_file encodable svc environ args_model f (cwd', t) = (Inr (), (cwd', t'))"
proof (cases "g = f")
  case True
  from assms(3) obtain s'' where
    "triage_file encodable svc environ args_model f (cwd, s) = (Inr (), (cwd, s''))" by blast
  with assms(4) True have "cwd' = cwd" by simp
  with assms(3) show ?thesis by simp
next
  case False
  from assms(3) obtain t0' where
    "triage_file encodable svc environ args_model f (cwd, s) = (Inr (), (cwd, t0'))" by blast
  from settled_structure[OF this] obtain ins outs C report where
    i: "map_of cwd original_dir = Some (Dir ins)" "map_of ins f = Some (File C)"
    and tr: "selected_triage svc environ args_model C s = (Inr report, t0')"
    and o: "map_of cwd triaged_dir = Some (Dir outs)"
    and d: "map_of outs f = Some (File (updated_content C report))"
    and enc: "encodable (updated_content C report)"
    by blast
  have det: "\<forall>t. fst (selected_triage svc environ args_model C t) = Inr report"
  proof
    fix t
    have "fst (selected_triage svc environ args_model C t)
            = fst (selected_triage svc environ args_model C s)"
      using assms(1,2) by (rule selected_triage_deterministic)
    with tr show "fst (selected_triage svc environ args_model C t) = Inr report" by simp
  qed
  from triage_file_frame[OF assms(4)] o dirs_differ obtain outs' where
    i': "map_of cwd' original_dir = map_of cwd original_dir"
    and o': "map_of cwd' triaged_dir = Some (Dir outs')"
    and k: "\<forall>m. m \<noteq> g \<longrightarrow> map_of outs' m = map_of outs m"
    by auto
  have d': "map_of outs' f = Some (File (updated_content C report))"
    using k d False by simp
  show ?thesis
  proof
    fix t
    show "\<exists>t'. triage_file encodable svc environ args_model f (cwd', t) = (Inr (), (cwd', t'))"
      using i' i(1) by (intro structure_settled[where encodable = encodable and ins = ins
            and outs = outs' and C = C and report = report]) (simp_all add: i o' d' enc det)
  qed
qed

lemma settled_through_loop:
  assumes "\<forall>model messages s1 s2.
             fst (ollama_chat svc model messages s1) = fst (ollama_chat svc model messages s2)"
    and "\<forall>model contents s1 s2.
           fst (gemini_generate_content svc model contents s1)
             = fst (gemini_generate_content svc model contents s2)"
  shows "\<forall>t. \<exists>t'. triage_file encodable svc environ args_model f (cwd, t) = (Inr (), (cwd, t')) \<Longrightarrow>
     batch_loop encodable svc environ args_model names (cwd, s) = (r, (cwd', s')) \<Longrightarrow>
     \<forall>t. \<exists>t'. triage_file encodable svc environ args_model f (cwd', t) = (Inr (), (cwd', t'))"
proof (induction names arbitrary: cwd s)
  case Nil
  then show ?case by simp
next
  case (Cons g names)
  show ?case
  proof (cases "endswith g ''.md''")
    case False
    with Cons.prems(2)
    have "batch_loop encodable svc environ args_model names (cwd, s) = (r, (cwd', s'))" by simp
    with Cons.IH Cons.prems(1) show ?thesis by blast
  next
    case True
    obtain rg cwd_g s_g where
      step: "triage_file encodable svc environ args_model g (cwd, s) = (rg, (cwd_g, s_g))"
      by (metis prod.collapse)
    note st = settled_preserved[OF assms Cons.prems(1) step]
    show ?thesis
    proof (cases rg)
      case (Inl e)
      with Cons.prems(2) True step have "cwd' = cwd_g" by simp
      with st show ?thesis by simp
    next
      case (Inr u)
      with Cons.prems(2) True step have
        "batch_loop encodable svc environ args_model names (cwd_g, s_g) = (r, (cwd', s'))"
        by simp
      with Cons.IH st show ?thesis by blast
    qed
  qed
qed

lemma batch_loop_again:
  assumes "\<forall>model messages s1 s2.
             fst (ollama_chat svc model messages s1) = fst (ollama_chat svc model messages s2)"
    and "\<forall>model contents s1 s2.
           fst (gemini_generate_content svc model contents s1)
             = fst (gemini_generate_content svc model contents s2)"
  shows "batch_loop encodable svc environ args_model names (cwd, s) = (r, (cwd1, s1)) \<Longrightarrow>
     \<forall>t. \<exists>t'. batch_loop encodable svc environ args_model names (cwd1, t) = (r, (cwd1, t'))"
proof (induction names arbitrary: cwd s)
  case Nil
  then show ?case by simp
next
  case (Cons f names)
  show ?case
  proof (cases "endswith f ''.md''")
    case False
    with Cons.prems
    have "batch_loop encodable svc environ args_model names (cwd, s) = (r, (cwd1, s1))" by simp
    from Cons.IH[OF this] False show ?thesis by simp
  next
    case True
    obtain rf cwd_f s_f where
      step: "triage_file encodable svc environ args_model f (cwd, s) = (rf, (cwd_f, s_f))"
      by (metis prod.collapse)
    show ?thesis
    proof (cases rf)
      case (Inl e)
      with Cons.prems True step have c: "cwd1 = cwd_f" and r: "r = Inl e" by simp_all
      show ?thesis
      proof
        fix t
        from triage_file_again[OF assms step] obtain t' where
          "triage_file encodable svc environ args_model f (cwd_f, t) = (rf, (cwd_f, t'))"
          by blast
        with Inl c r True
        show "\<exists>t'. batch_loop encodable svc environ args_model (f # names) (cwd1, t)
                 = (r, (cwd1, t'))"
          by simp
      qed
    next
      case (Inr u)
      with Cons.prems True step have
        rest: "batch_loop encodable svc environ args_model names (cwd_f, s_f) = (r, (cwd1, s1))"
        by simp
      have "\<forall>t. \<exists>t'. triage_file encodable svc environ args_model f (cwd_f, t)
               = (Inr (), (cwd_f, t'))"
        using triage_file_again[OF assms step] Inr by simp
      from settled_through_loop[OF assms this rest]
      have f1: "\<forall>t. \<exists>t'. triage_file encodable svc environ args_model f (cwd1, t)
               = (Inr (), (cwd1, t'))" .
      show ?thesis
      proof
        fix t
        from f1 obtain t1 where
          a: "triage_file encodable svc environ args_model f (cwd1, t) = (Inr (), (cwd1, t1))"
          by blast
        from Cons.IH[OF rest] obtain t2 where
          "batch_loop encodable svc environ args_model names (cwd1, t1) = (r, (cwd1, t2))"
          by blast
        with a True
        show "\<exists>t'. batch_loop encodable svc environ args_model (f # names) (cwd1, t)
                 = (r, (cwd1, t'))"
          by simp
      qed
    qed
  qed
qed

text \<open>
  C9 as amended. If the chat call and the content generation answer equal requests
  equally in every state of the services, then a run of the loop, however it ends,
  leaves the input directory as it was, and a second run over the same names, from the
  files the first run left behind and from any state of the services, ends as the first
  did and leaves every file exactly as the first run left it.
\<close>

theorem batch_rerun_identical:
  assumes "\<forall>model messages s1 s2.
             fst (ollama_chat svc model messages s1) = fst (ollama_chat svc model messages s2)"
    and "\<forall>model contents s1 s2.
           fst (gemini_generate_content svc model contents s1)
             = fst (gemini_generate_content svc model contents s2)"
    and "batch_loop encodable svc environ args_model names (cwd, s) = (r, (cwd1, s1))"
  shows "os_listdir cwd1 original_dir = os_listdir cwd original_dir
    \<and> (\<exists>s2. batch_loop encodable svc environ args_model names (cwd1, t) = (r, (cwd1, s2)))"
proof
  from batch_loop_frame_any[OF assms(3)] dirs_differ
  have "map_of cwd1 original_dir = map_of cwd original_dir" by simp
  then show "os_listdir cwd1 original_dir = os_listdir cwd original_dir"
    by (simp add: os_listdir_def)
  from batch_loop_again[OF assms]
  show "\<exists>s2. batch_loop encodable svc environ args_model names (cwd1, t) = (r, (cwd1, s2))"
    by blast
qed

theorem batch_rerun_identical_witness:
  \<open>batch_loop strict_codec down_services test_environ Ollama (map fst inbox_tickets)
       (inbox_cwd, 0)
     = (Inr (),
        ([(''tickets-original'', Dir inbox_tickets),
          (''tickets-triaged'',
             Dir [(''b.md'', File ''No network.\<newline>\<newline>---\<newline>\<newline>**Status:** new\<newline>\<newline>---\<newline>\<newline>## Triage\<newline>\<newline>Error during Ollama triage: Ollama API is down''),
                  (''a.md'', File ''My printer is on fire.\<newline>\<newline>---\<newline>\<newline>**Status:** new\<newline>\<newline>---\<newline>\<newline>## Triage\<newline>\<newline>Error during Ollama triage: Ollama API is down'')])],
         2))
   \<and> os_listdir
         [(''tickets-original'', Dir inbox_tickets),
          (''tickets-triaged'',
             Dir [(''b.md'', File ''No network.\<newline>\<newline>---\<newline>\<newline>**Status:** new\<newline>\<newline>---\<newline>\<newline>## Triage\<newline>\<newline>Error during Ollama triage: Ollama API is down''),
                  (''a.md'', File ''My printer is on fire.\<newline>\<newline>---\<newline>\<newline>**Status:** new\<newline>\<newline>---\<newline>\<newline>## Triage\<newline>\<newline>Error during Ollama triage: Ollama API is down'')])]
         original_dir
       = Inr [''a.md'', ''notes.txt'', ''b.md'']
   \<and> batch_loop strict_codec down_services test_environ Ollama (map fst inbox_tickets)
       ([(''tickets-original'', Dir inbox_tickets),
         (''tickets-triaged'',
            Dir [(''b.md'', File ''No network.\<newline>\<newline>---\<newline>\<newline>**Status:** new\<newline>\<newline>---\<newline>\<newline>## Triage\<newline>\<newline>Error during Ollama triage: Ollama API is down''),
                 (''a.md'', File ''My printer is on fire.\<newline>\<newline>---\<newline>\<newline>**Status:** new\<newline>\<newline>---\<newline>\<newline>## Triage\<newline>\<newline>Error during Ollama triage: Ollama API is down'')])],
        2)
     = (Inr (),
        ([(''tickets-original'', Dir inbox_tickets),
          (''tickets-triaged'',
             Dir [(''b.md'', File ''No network.\<newline>\<newline>---\<newline>\<newline>**Status:** new\<newline>\<newline>---\<newline>\<newline>## Triage\<newline>\<newline>Error during Ollama triage: Ollama API is down''),
                  (''a.md'', File ''My printer is on fire.\<newline>\<newline>---\<newline>\<newline>**Status:** new\<newline>\<newline>---\<newline>\<newline>## Triage\<newline>\<newline>Error during Ollama triage: Ollama API is down'')])],
         4))\<close>
proof -
  have a: "\<forall>model messages s1 s2.
             fst (ollama_chat down_services model messages s1)
               = fst (ollama_chat down_services model messages s2)"
    by (simp add: down_services_def)
  have b: "\<forall>model contents s1 s2.
           fst (gemini_generate_content down_services model contents s1)
             = fst (gemini_generate_content down_services model contents s2)"
    by (simp add: down_services_def)
  have c: "batch_loop strict_codec down_services test_environ Ollama (map fst inbox_tickets)
             (inbox_cwd, 0)
           = (Inr (),
        ([(''tickets-original'', Dir inbox_tickets),
          (''tickets-triaged'',
             Dir [(''b.md'', File ''No network.\<newline>\<newline>---\<newline>\<newline>**Status:** new\<newline>\<newline>---\<newline>\<newline>## Triage\<newline>\<newline>Error during Ollama triage: Ollama API is down''),
                  (''a.md'', File ''My printer is on fire.\<newline>\<newline>---\<newline>\<newline>**Status:** new\<newline>\<newline>---\<newline>\<newline>## Triage\<newline>\<newline>Error during Ollama triage: Ollama API is down'')])],
         2))"
    by (simp add: loop_eval inbox_cwd_def inbox_tickets_def stale_outputs_def down_services_def
        test_environ_def)
  from batch_rerun_identical
         [where encodable = strict_codec and environ = test_environ and args_model = Ollama
            and svc = down_services and t = 2, OF a b c]
  show ?thesis
    by (simp add: loop_eval os_listdir_def inbox_cwd_def inbox_tickets_def stale_outputs_def
        down_services_def test_environ_def)
qed

end
